theory Spec2Isabelle
  imports Main "HOL-Library.Word"
begin

unbundle bit_operations_syntax

section \<open>FakeXRandR: the xcb-randr interposer\<close>

text \<open>
  A shallow embedding of \<^verbatim>\<open>src/fakexrandr.h\<close> and \<^verbatim>\<open>src/libxcb-randr.cpp\<close>.
  C integers are machine words of their declared width (\<^verbatim>\<open>uint32_t\<close> and
  \<^verbatim>\<open>unsigned int\<close> are \<open>32 word\<close>, \<^verbatim>\<open>uint16_t\<close> and \<^verbatim>\<open>int16_t\<close> are \<open>16 word\<close>,
  \<^verbatim>\<open>char\<close> and \<^verbatim>\<open>uint8_t\<close> are \<open>8 word\<close>), the hand-linked lists are HOL lists in
  link order, and everything that stops the process or leaves defined behaviour (a
  failed \<^verbatim>\<open>assert\<close>, a read outside the mapped configuration, a write outside a
  buffer, a null or dangling pointer, a division by zero) is a value of the type
  \<open>fault\<close>.
\<close>

type_synonym u8 = "8 word"
type_synonym u16 = "16 word"
type_synonym u32 = "32 word"

datatype fault =
    ReadPastEnd
  | AssertionFailed
  | DivisionByZero
  | NullDereference
  | UseAfterFree
  | BufferOverflow

subsection \<open>The XID modifier (fakexrandr.h)\<close>

definition XID_SPLIT_SHIFT :: nat where
  "XID_SPLIT_SHIFT = 21"

definition XID_SPLIT_MASK :: u32 where
  "XID_SPLIT_MASK = 0x7FE00000"

text \<open>\<^verbatim>\<open>(xid & ~XID_SPLIT_MASK) | (n << XID_SPLIT_SHIFT)\<close> on \<^verbatim>\<open>uint32_t\<close>.\<close>

definition augmentXID :: "u32 \<Rightarrow> u32 \<Rightarrow> u32" where
  "augmentXID xid n = (xid AND NOT XID_SPLIT_MASK) OR push_bit XID_SPLIT_SHIFT n"

text \<open>
  The two readings the header documents: \<^verbatim>\<open>xid & ~XID_SPLIT_MASK\<close> is the xid of the
  original output, \<^verbatim>\<open>xid >> XID_SPLIT_SHIFT\<close> is the counter of the virtual screen.
\<close>

definition xid_original :: "u32 \<Rightarrow> u32" where
  "xid_original xid = xid AND NOT XID_SPLIT_MASK"

definition xid_counter :: "u32 \<Rightarrow> u32" where
  "xid_counter xid = drop_bit XID_SPLIT_SHIFT xid"

definition decode :: "u32 \<Rightarrow> u32 \<times> u32" where
  "decode xid = (xid_original xid, xid_counter xid)"

subsection \<open>Replies of the real library (xcb/randr.h)\<close>

text \<open>
  The fixed part of each reply, field by field, and its variable-length lists. The
  fields are prefixed with the reply they belong to, since several replies share
  names. \<^verbatim>\<open>int16_t\<close> fields hold their two's complement bits.
\<close>

record xcb_randr_mode_info_t =
  mi_id :: u32
  mi_width :: u16
  mi_height :: u16
  mi_dot_clock :: u32
  mi_hsync_start :: u16
  mi_hsync_end :: u16
  mi_htotal :: u16
  mi_hskew :: u16
  mi_vsync_start :: u16
  mi_vsync_end :: u16
  mi_vtotal :: u16
  mi_name_len :: u16
  mi_mode_flags :: u32

record xcb_randr_get_crtc_info_reply_t =
  ci_status :: u8
  ci_timestamp :: u32
  ci_x :: u16
  ci_y :: u16
  ci_width :: u16
  ci_height :: u16
  ci_mode :: u32
  ci_rotation :: u16
  ci_rotations :: u16
  ci_num_outputs :: u16
  ci_num_possible_outputs :: u16
  ci_outputs :: "u32 list"
  ci_possible :: "u32 list"

record xcb_randr_get_output_info_reply_t =
  oi_status :: u8
  oi_timestamp :: u32
  oi_crtc :: u32
  oi_mm_width :: u32
  oi_mm_height :: u32
  oi_connection :: u8
  oi_subpixel_order :: u8
  oi_num_crtcs :: u16
  oi_num_modes :: u16
  oi_num_preferred :: u16
  oi_num_clones :: u16
  oi_name_len :: u16
  oi_crtcs :: "u32 list"
  oi_modes :: "u32 list"
  oi_clones :: "u32 list"
  oi_name :: "u8 list"

record xcb_randr_get_screen_resources_reply_t =
  sr_sequence :: u16
  sr_length :: u32
  sr_timestamp :: u32
  sr_config_timestamp :: u32
  sr_num_crtcs :: u16
  sr_num_outputs :: u16
  sr_num_modes :: u16
  sr_names_len :: u16
  sr_crtcs :: "u32 list"
  sr_outputs :: "u32 list"
  sr_modes :: "xcb_randr_mode_info_t list"
  sr_names :: "u8 list"

definition XCB_RANDR_CONNECTION_DISCONNECTED :: u8 where
  "XCB_RANDR_CONNECTION_DISCONNECTED = 1"

subsection \<open>The fake objects\<close>

record FakeCrtcInfo =
  fc_xid :: u32
  fc_orig_crtc_info :: xcb_randr_get_crtc_info_reply_t
  fc_output :: u32

text \<open>
  The constructor copies the fixed part of the parent's reply (a struct copy carries no
  variable-length data) and overwrites the geometry and the mode.
\<close>

definition FakeCrtcInfo_new ::
  "u32 \<Rightarrow> u32 \<Rightarrow> xcb_randr_get_crtc_info_reply_t \<Rightarrow> u16 \<Rightarrow> u16 \<Rightarrow> u16 \<Rightarrow> u16 \<Rightarrow> u32 \<Rightarrow> FakeCrtcInfo" where
  "FakeCrtcInfo_new xid outp crtcInfo x y width height mode =
     \<lparr>fc_xid = xid,
      fc_orig_crtc_info = crtcInfo
        \<lparr>ci_outputs := [], ci_possible := [],
         ci_num_outputs := 1, ci_num_possible_outputs := 1,
         ci_x := x, ci_y := y, ci_width := width, ci_height := height, ci_mode := mode\<rparr>,
      fc_output = outp\<rparr>"

definition FakeCrtcInfo_makeReturnValue :: "FakeCrtcInfo \<Rightarrow> xcb_randr_get_crtc_info_reply_t" where
  "FakeCrtcInfo_makeReturnValue fc =
     (fc_orig_crtc_info fc)\<lparr>ci_outputs := [fc_output fc], ci_possible := [fc_output fc]\<rparr>"

record FakeOutputInfo =
  fo_xid :: u32
  fo_parent_xid :: u32
  fo_orig_output_info :: xcb_randr_get_output_info_reply_t
  fo_modes :: "u32 list"
  fo_clones :: "u32 list"
  fo_name :: "u8 list"

text \<open>
  The constructor's \<^verbatim>\<open>snprintf\<close> of the parent's name and the suffix index reads the
  parent's name as a C string out of the reply buffer; its text is a parameter here
  (\<open>name\<close>), and \<^verbatim>\<open>name_len\<close> is its length. The arrays \<^verbatim>\<open>modes\<close> and \<^verbatim>\<open>clones\<close> are
  allocated and filled by the caller.
\<close>

definition FakeOutputInfo_new ::
  "u32 \<Rightarrow> u32 \<Rightarrow> xcb_randr_get_output_info_reply_t \<Rightarrow> u16 \<Rightarrow> u16 \<Rightarrow> u32 \<Rightarrow> u32 \<Rightarrow> u8 list \<Rightarrow> FakeOutputInfo" where
  "FakeOutputInfo_new xid parent_xid origInfo num_modes num_clones mm_width mm_height name =
     \<lparr>fo_xid = xid,
      fo_parent_xid = parent_xid,
      fo_orig_output_info = origInfo
        \<lparr>oi_crtcs := [], oi_modes := [], oi_clones := [], oi_name := [],
         oi_mm_width := mm_width, oi_mm_height := mm_height,
         oi_num_crtcs := 1, oi_num_modes := num_modes, oi_num_preferred := 0,
         oi_num_clones := num_clones, oi_name_len := word_of_nat (length name)\<rparr>,
      fo_modes = [],
      fo_clones = [],
      fo_name = name\<rparr>"

definition FakeOutputInfo_makeReturnValue :: "FakeOutputInfo \<Rightarrow> xcb_randr_get_output_info_reply_t" where
  "FakeOutputInfo_makeReturnValue fo =
     (let orig = fo_orig_output_info fo in
      orig\<lparr>oi_crtcs := [oi_crtc orig],
           oi_modes := take (unat (oi_num_modes orig)) (fo_modes fo),
           oi_clones := take (unat (oi_num_clones orig)) (fo_clones fo),
           oi_name := take (unat (oi_name_len orig)) (fo_name fo)\<rparr>)"

text \<open>\<^verbatim>\<open>snprintf("%d")\<close> of a value that is not negative.\<close>

fun decimal :: "nat \<Rightarrow> u8 list" where
  "decimal n = (if n < 10 then [word_of_nat (48 + n)]
                else decimal (n div 10) @ [word_of_nat (48 + n mod 10)])"

declare decimal.simps [simp del]

record FakeModeInfo =
  fm_info :: xcb_randr_mode_info_t
  fm_name :: "u8 list"

text \<open>
  \<^verbatim>\<open>FakeModeInfo\<close> derives from \<^verbatim>\<open>xcb_randr_mode_info_t\<close>: \<open>fm_info\<close> is the base
  object. The name is \<^verbatim>\<open>"%dx%d"\<close> of the width and the height.
\<close>

definition FakeModeInfo_new :: "u32 \<Rightarrow> xcb_randr_mode_info_t \<Rightarrow> u16 \<Rightarrow> u16 \<Rightarrow> FakeModeInfo" where
  "FakeModeInfo_new xid baseMode width height =
     (let name = decimal (unat width) @ [0x78] @ decimal (unat height) in
      \<lparr>fm_info = baseMode\<lparr>mi_id := xid, mi_width := width, mi_height := height,
                           mi_name_len := word_of_nat (length name)\<rparr>,
       fm_name = name\<rparr>)"

subsection \<open>The split plan of one record (_config_foreach_split)\<close>

text \<open>
  The tags \<^verbatim>\<open>'N'\<close>, \<^verbatim>\<open>'H'\<close> and \<^verbatim>\<open>'V'\<close>, and \<^verbatim>\<open>*(unsigned int *)&config[1]\<close>: four
  bytes in the byte order of the host, little-endian on the machines the library is
  built for. The configuration is the list of bytes from the cursor to the end of the
  mapped memory; a read behind its last byte is the fault \<open>ReadPastEnd\<close>.
\<close>

definition chr_N :: u8 where "chr_N = 0x4E"
definition chr_H :: u8 where "chr_H = 0x48"
definition chr_V :: u8 where "chr_V = 0x56"

fun read_unsigned :: "u8 list \<Rightarrow> u32 option" where
  "read_unsigned (b0 # b1 # b2 # b3 # rest) =
     Some (ucast b0 OR push_bit 8 (ucast b1) OR push_bit 16 (ucast b2) OR push_bit 24 (ucast b3))"
| "read_unsigned bs = None"

record split_ctx =
  cx_resources :: xcb_randr_get_screen_resources_reply_t
  cx_output :: u32
  cx_output_info :: xcb_randr_get_output_info_reply_t
  cx_crtc_info :: xcb_randr_get_crtc_info_reply_t
  cx_leaf_name :: "u32 \<Rightarrow> u8 list"

text \<open>
  The counter \<^verbatim>\<open>*n\<close> and the three lists the tail pointers \<^verbatim>\<open>fake_crtcs\<close>,
  \<^verbatim>\<open>fake_outputs\<close> and \<^verbatim>\<open>fake_modes\<close> append to.
\<close>

record split_state =
  sp_n :: u32
  sp_crtcs :: "FakeCrtcInfo list"
  sp_outputs :: "FakeOutputInfo list"
  sp_modes :: "FakeModeInfo list"

text \<open>
  The branch \<^verbatim>\<open>config[0] == 'N'\<close> without its division: the objects of one leaf.
  \<^verbatim>\<open>mm_width * width / crtc_info->width\<close> is computed in \<^verbatim>\<open>unsigned int\<close>; the sum
  \<^verbatim>\<open>crtc_info->x + x\<close> and the sizes are cut to the 16 bits of the constructor's
  parameters. The mode is made only when the loop over the real modes finds the
  controller's mode.
\<close>

definition leaf_output :: "split_ctx \<Rightarrow> u32 \<Rightarrow> u32 \<Rightarrow> u32 \<Rightarrow> FakeOutputInfo" where
  "leaf_output ctx n width height =
     (let oi = cx_output_info ctx; ci = cx_crtc_info ctx;
          fo = FakeOutputInfo_new (augmentXID (cx_output ctx) n) (cx_output ctx) oi
                 1 (oi_num_clones oi)
                 (oi_mm_width oi * width div ucast (ci_width ci))
                 (oi_mm_height oi * height div ucast (ci_height ci))
                 (cx_leaf_name ctx n)
      in fo\<lparr>fo_clones := map (\<lambda>c. augmentXID c n) (take (unat (oi_num_clones oi)) (oi_clones oi)),
            fo_modes := [augmentXID (oi_crtc oi) n],
            fo_orig_output_info := (fo_orig_output_info fo)\<lparr>oi_crtc := augmentXID (oi_crtc oi) n\<rparr>\<rparr>)"

definition leaf_crtc :: "split_ctx \<Rightarrow> u32 \<Rightarrow> u32 \<Rightarrow> u32 \<Rightarrow> u32 \<Rightarrow> u32 \<Rightarrow> FakeCrtcInfo" where
  "leaf_crtc ctx n x y width height =
     (let oi = cx_output_info ctx; ci = cx_crtc_info ctx in
      FakeCrtcInfo_new (augmentXID (oi_crtc oi) n) (augmentXID (cx_output ctx) n) ci
        (ucast ((scast (ci_x ci) :: u32) + x)) (ucast ((scast (ci_y ci) :: u32) + y))
        (ucast width) (ucast height) (augmentXID (oi_crtc oi) n))"

definition leaf_modes :: "split_ctx \<Rightarrow> u32 \<Rightarrow> u32 \<Rightarrow> u32 \<Rightarrow> FakeModeInfo list" where
  "leaf_modes ctx n width height =
     (let res = cx_resources ctx in
      case find (\<lambda>m. mi_id m = ci_mode (cx_crtc_info ctx))
             (take (unat (sr_num_modes res)) (sr_modes res)) of
        None \<Rightarrow> []
      | Some m \<Rightarrow>
          [FakeModeInfo_new (augmentXID (oi_crtc (cx_output_info ctx)) n) m
             (ucast width) (ucast height)])"

definition add_leaf :: "split_ctx \<Rightarrow> split_state \<Rightarrow> u32 \<times> u32 \<times> u32 \<times> u32 \<Rightarrow> split_state" where
  "add_leaf ctx st r =
     (case r of (x, y, width, height) \<Rightarrow>
        let n = sp_n st + 1 in
        \<lparr>sp_n = n,
         sp_crtcs = sp_crtcs st @ [leaf_crtc ctx n x y width height],
         sp_outputs = sp_outputs st @ [leaf_output ctx n width height],
         sp_modes = sp_modes st @ leaf_modes ctx n width height\<rparr>)"

definition new_leaf ::
  "split_ctx \<Rightarrow> split_state \<Rightarrow> u32 \<Rightarrow> u32 \<Rightarrow> u32 \<Rightarrow> u32 \<Rightarrow> fault + split_state" where
  "new_leaf ctx st x y width height =
     (if ci_width (cx_crtc_info ctx) = 0 \<or> ci_height (cx_crtc_info ctx) = 0
      then Inl DivisionByZero
      else Inr (add_leaf ctx st (x, y, width, height)))"

function config_foreach_split ::
  "split_ctx \<Rightarrow> u8 list \<Rightarrow> split_state \<Rightarrow> u32 \<Rightarrow> u32 \<Rightarrow> u32 \<Rightarrow> u32 \<Rightarrow> fault + (u8 list \<times> split_state)" where
  "config_foreach_split ctx [] st x y width height = Inl ReadPastEnd"
| "config_foreach_split ctx (tag # rest) st x y width height =
     (if tag = chr_N then
        (case new_leaf ctx st x y width height of
           Inl e \<Rightarrow> Inl e
         | Inr st' \<Rightarrow> Inr (rest, st'))
      else
        (case read_unsigned rest of
           None \<Rightarrow> Inl ReadPastEnd
         | Some split_pos \<Rightarrow>
             if tag = chr_H then
               (case config_foreach_split ctx (drop 4 rest) st x y width split_pos of
                  Inl e \<Rightarrow> Inl e
                | Inr (config', st') \<Rightarrow>
                    config_foreach_split ctx config' st' x (y + split_pos) width (height - split_pos))
             else if tag = chr_V then
               (case config_foreach_split ctx (drop 4 rest) st x y split_pos height of
                  Inl e \<Rightarrow> Inl e
                | Inr (config', st') \<Rightarrow>
                    config_foreach_split ctx config' st' (x + split_pos) y (width - split_pos) height)
             else Inl AssertionFailed))"
  by pat_completeness auto

lemma config_foreach_split_consumes:
  assumes "config_foreach_split_dom (ctx, config, st, x, y, width, height)"
    and "config_foreach_split ctx config st x y width height = Inr (config', st')"
  shows "length config' < length config"
  using assms
proof (induction arbitrary: config' st' rule: config_foreach_split.pinduct)
  case (1 ctx st x y width height)
  then show ?case by (simp add: config_foreach_split.psimps)
next
  case (2 ctx tag rest st x y width height)
  show ?case
  proof (cases "tag = chr_N")
    case True
    with 2(1,6) show ?thesis
      by (auto simp add: config_foreach_split.psimps split: sum.splits)
  next
    case False
    note notN = this
    from 2(1,6) notN obtain split_pos where sp: "read_unsigned rest = Some split_pos"
      by (auto simp add: config_foreach_split.psimps split: option.splits)
    show ?thesis
    proof (cases "tag = chr_H")
      case True
      from 2(1,6) notN sp True obtain c1 s1 where
        first: "config_foreach_split ctx (drop 4 rest) st x y width split_pos = Inr (c1, s1)"
        and second: "config_foreach_split ctx c1 s1 x (y + split_pos) width (height - split_pos) = Inr (config', st')"
        by (auto simp add: config_foreach_split.psimps split: sum.splits)
      from 2(2) [OF notN sp True first] have "length c1 < length (drop 4 rest)" .
      moreover from 2(3) [OF notN sp True first refl second] have "length config' < length c1" .
      ultimately show ?thesis by simp
    next
      case False
      note notH = this
      from 2(1,6) notN sp notH have isV: "tag = chr_V"
        by (auto simp add: config_foreach_split.psimps split: if_splits)
      from 2(1,6) notN sp notH isV obtain c1 s1 where
        first: "config_foreach_split ctx (drop 4 rest) st x y split_pos height = Inr (c1, s1)"
        and second: "config_foreach_split ctx c1 s1 (x + split_pos) y (width - split_pos) height = Inr (config', st')"
        by (auto simp add: config_foreach_split.psimps split: sum.splits)
      from 2(4) [OF notN sp notH isV first] have "length c1 < length (drop 4 rest)" .
      moreover from 2(5) [OF notN sp notH isV first refl second] have "length config' < length c1" .
      ultimately show ?thesis by simp
    qed
  qed
qed

termination config_foreach_split
proof (relation "measure (\<lambda>(ctx, config, st, x, y, width, height). length config)")
  show "wf (measure (\<lambda>(ctx, config, st, x, y, width, height). length config))" by simp
qed (auto dest: config_foreach_split_consumes)

subsection \<open>Split plans as trees\<close>

text \<open>
  The payload the traversal reads is a binary tree in prefix order: a leaf is the tag
  \<^verbatim>\<open>'N'\<close>, a split is its tag, the four bytes of its offset and its two children. A
  node with any other tag is kept as \<open>Unknown\<close>, with the four bytes that the
  traversal reads behind a tag before it looks at it. \<open>serialise\<close> lays a tree out as
  the bytes of the stream.
\<close>

datatype plan =
    Leaf
  | HSplit u32 plan plan
  | VSplit u32 plan plan
  | Unknown u8 u32

definition unsigned_bytes :: "u32 \<Rightarrow> u8 list" where
  "unsigned_bytes s = [ucast s, ucast (drop_bit 8 s), ucast (drop_bit 16 s), ucast (drop_bit 24 s)]"

fun serialise :: "plan \<Rightarrow> u8 list" where
  "serialise Leaf = [chr_N]"
| "serialise (HSplit s a b) = chr_H # unsigned_bytes s @ serialise a @ serialise b"
| "serialise (VSplit s a b) = chr_V # unsigned_bytes s @ serialise a @ serialise b"
| "serialise (Unknown t s) = t # unsigned_bytes s"

fun known_tags :: "plan \<Rightarrow> bool" where
  "known_tags Leaf = True"
| "known_tags (HSplit s a b) = (known_tags a \<and> known_tags b)"
| "known_tags (VSplit s a b) = (known_tags a \<and> known_tags b)"
| "known_tags (Unknown t s) = False"

text \<open>The tag of every \<open>Unknown\<close> node is none of the three tags.\<close>

fun foreign_tags :: "plan \<Rightarrow> bool" where
  "foreign_tags Leaf = True"
| "foreign_tags (HSplit s a b) = (foreign_tags a \<and> foreign_tags b)"
| "foreign_tags (VSplit s a b) = (foreign_tags a \<and> foreign_tags b)"
| "foreign_tags (Unknown t s) = (t \<noteq> chr_N \<and> t \<noteq> chr_H \<and> t \<noteq> chr_V)"

fun leaf_count :: "plan \<Rightarrow> nat" where
  "leaf_count Leaf = 1"
| "leaf_count (HSplit s a b) = leaf_count a + leaf_count b"
| "leaf_count (VSplit s a b) = leaf_count a + leaf_count b"
| "leaf_count (Unknown t s) = 0"

text \<open>
  The rectangles \<^verbatim>\<open>(x, y, width, height)\<close> the traversal hands to the leaves of a
  tree, in the order it visits them, computed as \<^verbatim>\<open>_config_foreach_split\<close> computes
  its arguments (in \<^verbatim>\<open>unsigned int\<close>).
\<close>

type_synonym rect = "u32 \<times> u32 \<times> u32 \<times> u32"

fun leaf_rects :: "plan \<Rightarrow> rect \<Rightarrow> rect list" where
  "leaf_rects Leaf r = [r]"
| "leaf_rects (HSplit s a b) (x, y, width, height) =
     leaf_rects a (x, y, width, s) @ leaf_rects b (x, y + s, width, height - s)"
| "leaf_rects (VSplit s a b) (x, y, width, height) =
     leaf_rects a (x, y, s, height) @ leaf_rects b (x + s, y, width - s, height)"
| "leaf_rects (Unknown t s) r = []"

text \<open>Every offset lies within the side it splits.\<close>

fun offsets_fit :: "plan \<Rightarrow> u32 \<Rightarrow> u32 \<Rightarrow> bool" where
  "offsets_fit Leaf width height = True"
| "offsets_fit (HSplit s a b) width height =
     (s \<le> height \<and> offsets_fit a width s \<and> offsets_fit b width (height - s))"
| "offsets_fit (VSplit s a b) width height =
     (s \<le> width \<and> offsets_fit a s height \<and> offsets_fit b (width - s) height)"
| "offsets_fit (Unknown t s) width height = True"

text \<open>
  The pixels of a rectangle: \<open>(px, py)\<close> lies in \<open>(x, y, width, height)\<close> when its
  distance from the origin of the rectangle is below the size, on both axes.
\<close>

fun in_rect :: "rect \<Rightarrow> u32 \<times> u32 \<Rightarrow> bool" where
  "in_rect (x, y, width, height) (px, py) = (px - x < width \<and> py - y < height)"

definition tiles :: "rect list \<Rightarrow> rect \<Rightarrow> bool" where
  "tiles rs r \<longleftrightarrow>
     (\<forall>p. in_rect r p \<longleftrightarrow> (\<exists>q \<in> set rs. in_rect q p)) \<and>
     (\<forall>i j p. i < j \<and> j < length rs \<and> in_rect (rs ! i) p \<longrightarrow> \<not> in_rect (rs ! j) p)"

subsection \<open>The configuration file (open_configuration)\<close>

text \<open>
  What \<^verbatim>\<open>open_configuration\<close> asks of the process environment: the two environment
  variables, \<^verbatim>\<open>access(path, R_OK)\<close>, \<^verbatim>\<open>open\<close> and \<^verbatim>\<open>mmap\<close> (the bytes of the file, or
  \<open>None\<close> for \<^verbatim>\<open>MAP_FAILED\<close>). A call first unmaps what is mapped, and on every path
  that returns 1 the static \<^verbatim>\<open>config_file\<close> is left \<^verbatim>\<open>NULL\<close>, so the result is the
  new value of \<^verbatim>\<open>config_file\<close>: \<open>None\<close> for \<^verbatim>\<open>NULL\<close> and the return value 1, the bytes
  of the mapped file for the return value 0. \<^verbatim>\<open>config_file_size\<close> is the number of
  these bytes (\<^verbatim>\<open>st_size\<close>).
\<close>

record os_env =
  env_XDG_CONFIG_HOME :: "string option"
  env_HOME :: "string option"
  os_access :: "string \<Rightarrow> bool"
  os_open :: "string \<Rightarrow> bool"
  os_mmap :: "string \<Rightarrow> u8 list option"

definition open_configuration :: "os_env \<Rightarrow> u8 list option" where
  "open_configuration os =
     (case (case env_XDG_CONFIG_HOME os of
              Some dir \<Rightarrow> Some dir
            | None \<Rightarrow>
                (case env_HOME os of
                   None \<Rightarrow> None
                 | Some home_dir \<Rightarrow>
                     if length (home_dir @ ''/.config'') \<ge> 512 then None
                     else Some (home_dir @ ''/.config''))) of
        None \<Rightarrow> None
      | Some config_dir \<Rightarrow>
          let config_file_path = config_dir @ ''/fakexrandr.bin'' in
          if length config_file_path \<ge> 512 then None
          else if \<not> os_access os config_file_path then None
          else if \<not> os_open os config_file_path then None
          else os_mmap os config_file_path)"

text \<open>
  \<^verbatim>\<open>mmap\<close> maps whole pages: behind the bytes of the file the last page is filled with
  zeros, and an access behind that page is outside the mapping. \<open>mapped\<close> is the
  memory at \<^verbatim>\<open>config_file\<close> for a file of the given bytes, with pages of 4096 bytes. A
  read behind the last byte of \<open>mapped\<close> is the fault \<open>ReadPastEnd\<close>.
\<close>

definition PAGE_SIZE :: nat where
  "PAGE_SIZE = 4096"

definition page_fill :: "nat \<Rightarrow> nat" where
  "page_fill n = (PAGE_SIZE - n mod PAGE_SIZE) mod PAGE_SIZE"

definition mapped :: "u8 list \<Rightarrow> u8 list" where
  "mapped bytes = bytes @ replicate (page_fill (length bytes)) 0"

subsection \<open>Matching an output against the records (config_handle_output)\<close>

text \<open>
  \<^verbatim>\<open>strncmp(s1, s2, n) == 0\<close> on the bytes that lie at the two pointers: the
  comparison ends at the first difference, at a NUL, or after \<open>n\<close> bytes. \<open>None\<close> is a
  read behind the bytes given.
\<close>

fun strncmp_eq :: "u8 list \<Rightarrow> u8 list \<Rightarrow> nat \<Rightarrow> bool option" where
  "strncmp_eq s1 s2 0 = Some True"
| "strncmp_eq (a # s1) (b # s2) (Suc n) =
     (if a \<noteq> b then Some False else if a = 0 then Some True else strncmp_eq s1 s2 n)"
| "strncmp_eq s1 s2 (Suc n) = None"

text \<open>
  The head of a record, as the loop body reads it at its cursor: the size, the
  fingerprint at offset \<open>4 + 128\<close>, and the width, height and count behind it (the
  name and the count are not used). The last of these reads ends at byte 912.
\<close>

definition read_record :: "u8 list \<Rightarrow> (u32 \<times> u8 list \<times> u32 \<times> u32) option" where
  "read_record config =
     (case read_unsigned config of
        None \<Rightarrow> None
      | Some rsize \<Rightarrow>
          (case read_unsigned (drop (4 + 128 + 768) config) of
             None \<Rightarrow> None
           | Some width \<Rightarrow>
               (case read_unsigned (drop (4 + 128 + 768 + 4) config) of
                  None \<Rightarrow> None
                | Some height \<Rightarrow>
                    (case read_unsigned (drop (4 + 128 + 768 + 4 + 4) config) of
                       None \<Rightarrow> None
                     | Some rcount \<Rightarrow>
                         Some (rsize, take 768 (drop (4 + 128) config), width, height)))))"

text \<open>
  The real library, as far as the engine queries it while it builds a snapshot: the
  reply to an output-info and to a controller-info request (\<open>None\<close> is a \<^verbatim>\<open>NULL\<close>
  reply), the bytes of an output's EDID property (\<open>None\<close> when the atom or the
  property reply is \<^verbatim>\<open>NULL\<close>), and the text the constructor of \<^verbatim>\<open>FakeOutputInfo\<close>
  prints for a parent reply and an index.
\<close>

record real_backend =
  be_output_info :: "u32 \<Rightarrow> xcb_randr_get_output_info_reply_t option"
  be_crtc_info :: "u32 \<Rightarrow> xcb_randr_get_crtc_info_reply_t option"
  be_edid_property :: "u32 \<Rightarrow> u8 list option"
  be_printed_name :: "xcb_randr_get_output_info_reply_t \<Rightarrow> u32 \<Rightarrow> u8 list"

text \<open>
  One pass through the body of the loop of \<^verbatim>\<open>config_handle_output\<close> over the
  memory at \<^verbatim>\<open>config_file\<close>, with the cursor at \<open>off\<close> (the distance
  \<^verbatim>\<open>config - config_file\<close>): it returns from the
  function, or it moves the cursor by \<^verbatim>\<open>4 + size\<close>, added in \<^verbatim>\<open>unsigned int\<close>. The
  widths are compared as \<^verbatim>\<open>int\<close>. The counter \<^verbatim>\<open>n\<close> of a match starts at 0.
\<close>

datatype scan_step =
    Return "fault + int \<times> split_state"
  | Advance nat

definition config_record ::
  "real_backend \<Rightarrow> u8 list \<Rightarrow> xcb_randr_get_screen_resources_reply_t \<Rightarrow> u32 \<Rightarrow> u8 list \<Rightarrow>
   split_state \<Rightarrow> nat \<Rightarrow> scan_step" where
  "config_record be memory resources outp target_edid fakes off =
     (case read_record (drop off memory) of
        None \<Rightarrow> Return (Inl ReadPastEnd)
      | Some (rsize, edid, width, height) \<Rightarrow>
          (case strncmp_eq edid target_edid 768 of
             None \<Rightarrow> Return (Inl ReadPastEnd)
           | Some False \<Rightarrow> Advance (off + unat (4 + rsize))
           | Some True \<Rightarrow>
               (case be_output_info be outp of
                  None \<Rightarrow> Return (Inr (0, fakes))
                | Some output_info \<Rightarrow>
                    (case be_crtc_info be (oi_crtc output_info) of
                       None \<Rightarrow> Return (Inr (0, fakes))
                     | Some output_crtc \<Rightarrow>
                         if uint (ci_width output_crtc) = sint width \<and>
                            uint (ci_height output_crtc) = sint height
                         then
                           (case config_foreach_split
                                   \<lparr>cx_resources = resources, cx_output = outp,
                                    cx_output_info = output_info, cx_crtc_info = output_crtc,
                                    cx_leaf_name = be_printed_name be output_info\<rparr>
                                   (drop (off + (4 + 128 + 768 + 4 + 4 + 4)) memory)
                                   (fakes\<lparr>sp_n := 0\<rparr>) 0 0 width height of
                              Inl e \<Rightarrow> Return (Inl e)
                            | Inr (config', fakes') \<Rightarrow> Return (Inr (1, fakes')))
                         else Advance (off + unat (4 + rsize))))))"

text \<open>
  The loop itself, for a file of the bytes \<open>config_file\<close>: \<^verbatim>\<open>config_file_size\<close> is
  their number, and the reads go to the memory \<open>mapped config_file\<close>. Its condition
  \<^verbatim>\<open>(int)(config - config_file) <= (int)config_file_size\<close> compares the two numbers cut
  to \<^verbatim>\<open>int\<close>. A record whose size field makes
  \<^verbatim>\<open>4 + size\<close> wrap to 0 keeps the cursor where it is, so the loop need not end: \<open>None\<close>
  is a run that does not return.
\<close>

partial_function (option) config_scan ::
  "real_backend \<Rightarrow> u8 list \<Rightarrow> xcb_randr_get_screen_resources_reply_t \<Rightarrow> u32 \<Rightarrow> u8 list \<Rightarrow>
   split_state \<Rightarrow> nat \<Rightarrow> (fault + int \<times> split_state) option" where
  "config_scan be config_file resources outp target_edid fakes off =
     (if sint (word_of_nat off :: u32) \<le> sint (word_of_nat (length config_file) :: u32) then
        (case config_record be (mapped config_file) resources outp target_edid fakes off of
           Return r \<Rightarrow> Some r
         | Advance off' \<Rightarrow> config_scan be config_file resources outp target_edid fakes off')
      else Some (Inr (0, fakes)))"

definition config_handle_output ::
  "real_backend \<Rightarrow> u8 list \<Rightarrow> xcb_randr_get_screen_resources_reply_t \<Rightarrow> u32 \<Rightarrow> u8 list \<Rightarrow>
   split_state \<Rightarrow> (fault + int \<times> split_state) option" where
  "config_handle_output be config_file resources outp target_edid fakes =
     config_scan be config_file resources outp target_edid fakes 0"

subsection \<open>Records of the configuration file\<close>

text \<open>
  The layout the loop reads: the size of the rest of the record, 128 bytes of name, 768
  bytes of fingerprint, the width, the height and the length of the payload (four bytes
  each), and the payload. \<open>entry_bytes\<close> lays one record out, \<open>entry_ok\<close> says that its
  fields have these lengths and that its size fits the size field.
\<close>

record config_entry =
  ce_name :: "u8 list"
  ce_edid :: "u8 list"
  ce_width :: u32
  ce_height :: u32
  ce_payload :: "u8 list"

definition entry_bytes :: "config_entry \<Rightarrow> u8 list" where
  "entry_bytes e =
     unsigned_bytes (word_of_nat (128 + 768 + 4 + 4 + 4 + length (ce_payload e))) @
     ce_name e @ ce_edid e @
     unsigned_bytes (ce_width e) @ unsigned_bytes (ce_height e) @
     unsigned_bytes (word_of_nat (length (ce_payload e))) @ ce_payload e"

definition entry_ok :: "config_entry \<Rightarrow> bool" where
  "entry_ok e \<longleftrightarrow>
     length (ce_name e) = 128 \<and> length (ce_edid e) = 768 \<and>
     912 + length (ce_payload e) < 2 ^ 32"

text \<open>
  One pass of the loop skips a record: its fingerprint differs from the output's, or
  it is equal and both replies of the real library arrive and the recorded size is not
  the size of the controller.
\<close>

definition skipped :: "real_backend \<Rightarrow> u32 \<Rightarrow> u8 list \<Rightarrow> config_entry \<Rightarrow> bool" where
  "skipped be outp target_edid e \<longleftrightarrow>
     strncmp_eq (ce_edid e) target_edid 768 = Some False \<or>
     (strncmp_eq (ce_edid e) target_edid 768 = Some True \<and>
      (case be_output_info be outp of
         None \<Rightarrow> False
       | Some output_info \<Rightarrow>
           (case be_crtc_info be (oi_crtc output_info) of
              None \<Rightarrow> False
            | Some output_crtc \<Rightarrow>
                \<not> (uint (ci_width output_crtc) = sint (ce_width e) \<and>
                   uint (ci_height output_crtc) = sint (ce_height e)))))"

subsection \<open>The fingerprint of an output (get_output_edid)\<close>

definition hex_digit :: "u8 \<Rightarrow> u8" where
  "hex_digit v = (let c = v + 0x30 in if c > 0x39 then c + 39 else c)"

definition hex_string :: "u8 list \<Rightarrow> u8 list" where
  "hex_string prop = concat (map (\<lambda>b. [hex_digit (drop_bit 4 b AND 0xF), hex_digit (b AND 0xF)]) prop)"

text \<open>
  The result is the returned \<^verbatim>\<open>int\<close> and what the call wrote to the 768 bytes of
  \<^verbatim>\<open>edid\<close>: two digits for each byte of the property and a NUL. The write of the NUL
  at index \<^verbatim>\<open>2 * num_items\<close> leaves the buffer when the property has 384 bytes or more.
\<close>

definition get_output_edid :: "real_backend \<Rightarrow> u32 \<Rightarrow> fault + int \<times> u8 list" where
  "get_output_edid be outp =
     (case be_edid_property be outp of
        None \<Rightarrow> Inr (0, [])
      | Some prop \<Rightarrow>
          if length prop > 0 then
            (if 2 * length prop \<ge> 768 then Inl BufferOverflow
             else Inr (2 * int (length prop), hex_string prop @ [0]))
          else Inr (0, []))"

subsection \<open>The snapshot (FakeScreenResources)\<close>

record FakeScreenResources =
  fsr_origRes :: xcb_randr_get_screen_resources_reply_t
  fsr_fake_crtcs :: "FakeCrtcInfo list"
  fsr_fake_outputs :: "FakeOutputInfo list"
  fsr_fake_modes :: "FakeModeInfo list"

definition FakeScreenResources_new ::
  "xcb_randr_get_screen_resources_reply_t \<Rightarrow> FakeCrtcInfo list \<Rightarrow> FakeOutputInfo list \<Rightarrow>
   FakeModeInfo list \<Rightarrow> FakeScreenResources" where
  "FakeScreenResources_new originalResources fake_crtcs fake_outputs fake_modes =
     \<lparr>fsr_origRes = originalResources, fsr_fake_crtcs = fake_crtcs,
      fsr_fake_outputs = fake_outputs, fsr_fake_modes = fake_modes\<rparr>"

text \<open>
  C strings in a buffer of bytes: \<^verbatim>\<open>strlen\<close> counts up to the first NUL, and \<^verbatim>\<open>strcat\<close>
  writes the source (up to its NUL) at the first NUL of the destination. The buffer of
  the names holds the \<^verbatim>\<open>names_len\<close> bytes of the real names, then a NUL.
\<close>

definition strlen :: "u8 list \<Rightarrow> nat" where
  "strlen s = length (takeWhile (\<lambda>b. b \<noteq> 0) s)"

definition strcat :: "u8 list \<Rightarrow> u8 list \<Rightarrow> u8 list" where
  "strcat dest src = takeWhile (\<lambda>b. b \<noteq> 0) dest @ takeWhile (\<lambda>b. b \<noteq> 0) src"

text \<open>
  \<^verbatim>\<open>makeReturnValue\<close>. The fixed part is copied, and each count is incremented once
  for each fake object, in its 16 bits. The variable part is one buffer, large enough
  for all real and fake entries. The controllers are written at its start: the real
  entries (\<^verbatim>\<open>copy_n\<close> of the real count), then one entry for each fake object. The
  outputs, the modes and the names are written in the same way, each at the place its
  accessor computes from the counts of the reply, which have been incremented by then:
  the outputs start behind \<^verbatim>\<open>p->num_crtcs\<close> controllers, the modes behind
  \<^verbatim>\<open>p->num_outputs\<close> outputs, the names behind \<^verbatim>\<open>p->num_modes\<close> modes. A reader of
  the reply finds each array through the same accessors and takes as many entries as
  the count says. So what the reply holds of an array is the first \<open>count\<close> entries of
  what was written for it: all of them when the count has not wrapped around, and
  fewer when it has (the next array is then written over the rest). \<^verbatim>\<open>names_len\<close> is
  the \<^verbatim>\<open>strlen\<close> of the names buffer after the \<^verbatim>\<open>strcat\<close> of every fake mode's name.
\<close>

definition FakeScreenResources_makeReturnValue ::
  "FakeScreenResources \<Rightarrow> xcb_randr_get_screen_resources_reply_t" where
  "FakeScreenResources_makeReturnValue s =
     (let origRes = fsr_origRes s;
          num_crtcs = sr_num_crtcs origRes + word_of_nat (length (fsr_fake_crtcs s));
          num_outputs = sr_num_outputs origRes + word_of_nat (length (fsr_fake_outputs s));
          num_modes = sr_num_modes origRes + word_of_nat (length (fsr_fake_modes s));
          crtcsToFill = take (unat (sr_num_crtcs origRes)) (sr_crtcs origRes) @
                        map fc_xid (fsr_fake_crtcs s);
          outputsToFill = take (unat (sr_num_outputs origRes)) (sr_outputs origRes) @
                          map fo_xid (fsr_fake_outputs s);
          modesToFill = take (unat (sr_num_modes origRes)) (sr_modes origRes) @
                        map fm_info (fsr_fake_modes s);
          namesToFill = foldl strcat (take (unat (sr_names_len origRes)) (sr_names origRes))
                          (map fm_name (fsr_fake_modes s));
          names_len = (word_of_nat (strlen namesToFill) :: u16)
      in origRes
           \<lparr>sr_num_crtcs := num_crtcs,
            sr_crtcs := take (unat num_crtcs) crtcsToFill,
            sr_num_outputs := num_outputs,
            sr_outputs := take (unat num_outputs) outputsToFill,
            sr_num_modes := num_modes,
            sr_modes := take (unat num_modes) modesToFill,
            sr_names_len := names_len,
            sr_names := take (unat names_len) namesToFill\<rparr>)"

subsection \<open>The engine's state and the screen-resources replies\<close>

text \<open>
  The global pointer \<^verbatim>\<open>fakeScreenResources\<close>: \<^verbatim>\<open>NULL\<close>, a live object, or the address
  of an object that \<^verbatim>\<open>deleteObj\<close> has released (the wrappers delete the object and
  leave the pointer as it is).
\<close>

datatype snapshot_ptr = NullPtr | Object FakeScreenResources | Dangling

record engine =
  eg_config_file :: "u8 list option"
  eg_fakeScreenResources :: snapshot_ptr
  eg_crtc_info_cookies :: "(u32 \<times> u32) list"
  eg_output_info_cookies :: "(u32 \<times> u32) list"

text \<open>
  The loop of \<^verbatim>\<open>updateFakeResources\<close> over the outputs of the reply; a fault or a scan
  that does not return ends it.
\<close>

fun handle_outputs ::
  "real_backend \<Rightarrow> u8 list \<Rightarrow> xcb_randr_get_screen_resources_reply_t \<Rightarrow> u32 list \<Rightarrow>
   split_state \<Rightarrow> (fault + split_state) option" where
  "handle_outputs be config_file res [] fakes = Some (Inr fakes)"
| "handle_outputs be config_file res (outp # outputs) fakes =
     (case get_output_edid be outp of
        Inl e \<Rightarrow> Some (Inl e)
      | Inr (ret, output_edid) \<Rightarrow>
          if ret > 0 then
            (case config_handle_output be config_file res outp output_edid fakes of
               None \<Rightarrow> None
             | Some (Inl e) \<Rightarrow> Some (Inl e)
             | Some (Inr (matched, fakes')) \<Rightarrow> handle_outputs be config_file res outputs fakes')
          else handle_outputs be config_file res outputs fakes)"

text \<open>
  \<^verbatim>\<open>updateFakeResources\<close>. The reply \<open>res\<close> is \<open>None\<close> when the real library returned
  \<^verbatim>\<open>NULL\<close>. The two reply shapes have the same layout, so both accessors of the
  outputs read the same list. When \<^verbatim>\<open>open_configuration\<close> fails the function returns
  before it assigns \<^verbatim>\<open>fakeScreenResources\<close>.
\<close>

definition updateFakeResources ::
  "os_env \<Rightarrow> real_backend \<Rightarrow> engine \<Rightarrow> xcb_randr_get_screen_resources_reply_t option \<Rightarrow> bool \<Rightarrow>
   (fault + engine) option" where
  "updateFakeResources os be eng res current =
     (case open_configuration os of
        None \<Rightarrow> Some (Inr (eng\<lparr>eg_config_file := None\<rparr>))
      | Some config_file \<Rightarrow>
          (case res of
             None \<Rightarrow> Some (Inl NullDereference)
           | Some r \<Rightarrow>
               (case handle_outputs be config_file r
                       (take (unat (sr_num_outputs r)) (sr_outputs r))
                       \<lparr>sp_n = 0, sp_crtcs = [], sp_outputs = [], sp_modes = []\<rparr> of
                  None \<Rightarrow> None
                | Some (Inl e) \<Rightarrow> Some (Inl e)
                | Some (Inr fakes) \<Rightarrow>
                    Some (Inr (eng\<lparr>eg_config_file := Some config_file,
                                   eg_fakeScreenResources :=
                                     Object (FakeScreenResources_new r (sp_crtcs fakes)
                                               (sp_outputs fakes) (sp_modes fakes))\<rparr>)))))"

text \<open>
  The two overridden reply functions have the same body: delete the object the pointer
  names (the pointer keeps its value), fetch the real reply, update, and call
  \<^verbatim>\<open>makeReturnValue\<close> through the pointer.
\<close>

definition screen_resources_reply ::
  "bool \<Rightarrow> os_env \<Rightarrow> real_backend \<Rightarrow> engine \<Rightarrow> xcb_randr_get_screen_resources_reply_t option \<Rightarrow>
   (fault + xcb_randr_get_screen_resources_reply_t \<times> engine) option" where
  "screen_resources_reply current os be eng screen_resources =
     (case eg_fakeScreenResources eng of
        Dangling \<Rightarrow> Some (Inl UseAfterFree)
      | p \<Rightarrow>
          (case updateFakeResources os be
                  (eng\<lparr>eg_fakeScreenResources := (if p = NullPtr then NullPtr else Dangling)\<rparr>)
                  screen_resources current of
             None \<Rightarrow> None
           | Some (Inl e) \<Rightarrow> Some (Inl e)
           | Some (Inr eng') \<Rightarrow>
               (case eg_fakeScreenResources eng' of
                  NullPtr \<Rightarrow> Some (Inl NullDereference)
                | Dangling \<Rightarrow> Some (Inl UseAfterFree)
                | Object s \<Rightarrow> Some (Inr (FakeScreenResources_makeReturnValue s, eng')))))"

definition xcb_randr_get_screen_resources_current_reply ::
  "os_env \<Rightarrow> real_backend \<Rightarrow> engine \<Rightarrow> xcb_randr_get_screen_resources_reply_t option \<Rightarrow>
   (fault + xcb_randr_get_screen_resources_reply_t \<times> engine) option" where
  "xcb_randr_get_screen_resources_current_reply = screen_resources_reply True"

definition xcb_randr_get_screen_resources_reply ::
  "os_env \<Rightarrow> real_backend \<Rightarrow> engine \<Rightarrow> xcb_randr_get_screen_resources_reply_t option \<Rightarrow>
   (fault + xcb_randr_get_screen_resources_reply_t \<times> engine) option" where
  "xcb_randr_get_screen_resources_reply = screen_resources_reply False"

subsection \<open>Detail queries (the cookie lists and the info replies)\<close>

text \<open>
  \<^verbatim>\<open>AssocList\<close>: \<^verbatim>\<open>insert\<close> prepends a pair, \<^verbatim>\<open>find\<close> returns the first pair with the
  key, and \<^verbatim>\<open>erase\<close> unlinks that pair.
\<close>

definition assoc_insert :: "'k \<Rightarrow> 'v \<Rightarrow> ('k \<times> 'v) list \<Rightarrow> ('k \<times> 'v) list" where
  "assoc_insert k v pairs = (k, v) # pairs"

definition assoc_find :: "'k \<Rightarrow> ('k \<times> 'v) list \<Rightarrow> ('k \<times> 'v) option" where
  "assoc_find k pairs = find (\<lambda>p. fst p = k) pairs"

fun assoc_erase_first :: "'k \<Rightarrow> ('k \<times> 'v) list \<Rightarrow> ('k \<times> 'v) list" where
  "assoc_erase_first k [] = []"
| "assoc_erase_first k (p # pairs) = (if fst p = k then pairs else p # assoc_erase_first k pairs)"

text \<open>
  The connection to the real library, as far as the issue functions use it: a request
  is sent and a cookie with its sequence number comes back. The log of the requests
  sent stands for what the real library receives.
\<close>

datatype request =
    GetCrtcInfo u32 u32
  | GetCrtcInfoUnchecked u32 u32
  | GetOutputInfo u32 u32
  | GetOutputInfoUnchecked u32 u32

fun request_xid :: "request \<Rightarrow> u32" where
  "request_xid (GetCrtcInfo xid config_timestamp) = xid"
| "request_xid (GetCrtcInfoUnchecked xid config_timestamp) = xid"
| "request_xid (GetOutputInfo xid config_timestamp) = xid"
| "request_xid (GetOutputInfoUnchecked xid config_timestamp) = xid"

record real_connection =
  rc_sent :: "request list"
  rc_sequence :: u32

definition real_send :: "request \<Rightarrow> real_connection \<Rightarrow> u32 \<times> real_connection" where
  "real_send req c =
     (rc_sequence c + 1, \<lparr>rc_sent = rc_sent c @ [req], rc_sequence = rc_sequence c + 1\<rparr>)"

definition xcb_randr_get_crtc_info ::
  "engine \<Rightarrow> real_connection \<Rightarrow> u32 \<Rightarrow> u32 \<Rightarrow> u32 \<times> real_connection \<times> engine" where
  "xcb_randr_get_crtc_info eng c crtc config_timestamp =
     (let (cookie, c') = real_send (GetCrtcInfo (crtc AND NOT XID_SPLIT_MASK) config_timestamp) c
      in (cookie, c',
          eng\<lparr>eg_crtc_info_cookies := assoc_insert cookie crtc (eg_crtc_info_cookies eng)\<rparr>))"

definition xcb_randr_get_crtc_info_unchecked ::
  "engine \<Rightarrow> real_connection \<Rightarrow> u32 \<Rightarrow> u32 \<Rightarrow> u32 \<times> real_connection \<times> engine" where
  "xcb_randr_get_crtc_info_unchecked eng c crtc config_timestamp =
     (let (cookie, c') =
            real_send (GetCrtcInfoUnchecked (crtc AND NOT XID_SPLIT_MASK) config_timestamp) c
      in (cookie, c',
          eng\<lparr>eg_crtc_info_cookies := assoc_insert cookie crtc (eg_crtc_info_cookies eng)\<rparr>))"

definition xcb_randr_get_output_info ::
  "engine \<Rightarrow> real_connection \<Rightarrow> u32 \<Rightarrow> u32 \<Rightarrow> u32 \<times> real_connection \<times> engine" where
  "xcb_randr_get_output_info eng c outp config_timestamp =
     (let (cookie, c') = real_send (GetOutputInfo (outp AND NOT XID_SPLIT_MASK) config_timestamp) c
      in (cookie, c',
          eng\<lparr>eg_output_info_cookies := assoc_insert cookie outp (eg_output_info_cookies eng)\<rparr>))"

definition xcb_randr_get_output_info_unchecked ::
  "engine \<Rightarrow> real_connection \<Rightarrow> u32 \<Rightarrow> u32 \<Rightarrow> u32 \<times> real_connection \<times> engine" where
  "xcb_randr_get_output_info_unchecked eng c outp config_timestamp =
     (let (cookie, c') =
            real_send (GetOutputInfoUnchecked (outp AND NOT XID_SPLIT_MASK) config_timestamp) c
      in (cookie, c',
          eng\<lparr>eg_output_info_cookies := assoc_insert cookie outp (eg_output_info_cookies eng)\<rparr>))"

text \<open>\<^verbatim>\<open>xid_in_list\<close> at the list of fake outputs.\<close>

fun xid_in_list :: "FakeOutputInfo list \<Rightarrow> u32 \<Rightarrow> bool" where
  "xid_in_list [] xid = False"
| "xid_in_list (item # list) xid =
     (if fo_xid item = xid \<or> fo_parent_xid item = xid then True else xid_in_list list xid)"

text \<open>
  The reply functions. \<open>real_reply\<close> is what the real reply function returns for the
  cookie (\<open>None\<close> is \<^verbatim>\<open>NULL\<close>); the result is the returned pointer and the engine. A
  write through a \<^verbatim>\<open>NULL\<close> reply and a read through a released snapshot are faults.
\<close>

definition xcb_randr_get_output_info_reply ::
  "engine \<Rightarrow> u32 \<Rightarrow> xcb_randr_get_output_info_reply_t option \<Rightarrow>
   fault + xcb_randr_get_output_info_reply_t option \<times> engine" where
  "xcb_randr_get_output_info_reply eng cookie real_reply =
     (case assoc_find cookie (eg_output_info_cookies eng) of
        None \<Rightarrow> Inr (real_reply, eng)
      | Some fakeOutputItem \<Rightarrow>
          let outputId = snd fakeOutputItem;
              eng' = eng\<lparr>eg_output_info_cookies :=
                           assoc_erase_first cookie (eg_output_info_cookies eng)\<rparr>
          in (case eg_fakeScreenResources eng of
                NullPtr \<Rightarrow> Inr (None, eng')
              | Dangling \<Rightarrow> Inl UseAfterFree
              | Object s \<Rightarrow>
                  if outputId AND XID_SPLIT_MASK = 0 then
                    (if xid_in_list (fsr_fake_outputs s) outputId then
                       (case real_reply of
                          None \<Rightarrow> Inl NullDereference
                        | Some outputInfo \<Rightarrow>
                            Inr (Some (outputInfo\<lparr>oi_connection :=
                                                    XCB_RANDR_CONNECTION_DISCONNECTED\<rparr>), eng'))
                     else Inr (real_reply, eng'))
                  else
                    (case find (\<lambda>output. fo_xid output = outputId) (fsr_fake_outputs s) of
                       None \<Rightarrow> Inr (None, eng')
                     | Some output \<Rightarrow> Inr (Some (FakeOutputInfo_makeReturnValue output), eng'))))"

definition xcb_randr_get_crtc_info_reply ::
  "engine \<Rightarrow> u32 \<Rightarrow> xcb_randr_get_crtc_info_reply_t option \<Rightarrow>
   fault + xcb_randr_get_crtc_info_reply_t option \<times> engine" where
  "xcb_randr_get_crtc_info_reply eng cookie real_reply =
     (case assoc_find cookie (eg_crtc_info_cookies eng) of
        None \<Rightarrow> Inr (real_reply, eng)
      | Some fakeCrtcItem \<Rightarrow>
          let crtcId = snd fakeCrtcItem;
              eng' = eng\<lparr>eg_crtc_info_cookies :=
                           assoc_erase_first cookie (eg_crtc_info_cookies eng)\<rparr>
          in (case eg_fakeScreenResources eng of
                NullPtr \<Rightarrow> Inr (None, eng')
              | Dangling \<Rightarrow> Inl UseAfterFree
              | Object s \<Rightarrow>
                  if crtcId AND XID_SPLIT_MASK = 0 then
                    (if \<exists>output \<in> set (fsr_fake_outputs s).
                          oi_crtc (fo_orig_output_info output) AND NOT XID_SPLIT_MASK = crtcId then
                       (case real_reply of
                          None \<Rightarrow> Inl NullDereference
                        | Some info \<Rightarrow>
                            Inr (Some (info\<lparr>ci_mode := 0, ci_x := 0, ci_y := 0,
                                             ci_width := 0, ci_height := 0\<rparr>), eng'))
                     else Inr (real_reply, eng'))
                  else
                    (case find (\<lambda>crtc. fc_xid crtc = crtcId) (fsr_fake_crtcs s) of
                       None \<Rightarrow> Inr (None, eng')
                     | Some crtc \<Rightarrow> Inr (Some (FakeCrtcInfo_makeReturnValue crtc), eng'))))"

subsection \<open>A monitor to evaluate on\<close>

text \<open>
  A 3840x1080 output (xid \<open>0x42\<close>, 800 mm by 340 mm) on controller \<open>0x3F\<close> in mode
  \<open>0x50\<close>, the only mode of the screen.
\<close>

definition example_mode :: xcb_randr_mode_info_t where
  "example_mode =
     \<lparr>mi_id = 0x50, mi_width = 3840, mi_height = 1080, mi_dot_clock = 266500000,
      mi_hsync_start = 3888, mi_hsync_end = 3920, mi_htotal = 4000, mi_hskew = 0,
      mi_vsync_start = 1083, mi_vsync_end = 1093, mi_vtotal = 1111, mi_name_len = 9,
      mi_mode_flags = 0\<rparr>"

definition example_names :: "u8 list" where
  "example_names = [0x33, 0x38, 0x34, 0x30, 0x78, 0x31, 0x30, 0x38, 0x30]"

definition example_resources :: xcb_randr_get_screen_resources_reply_t where
  "example_resources =
     \<lparr>sr_sequence = 7, sr_length = 19, sr_timestamp = 1000, sr_config_timestamp = 900,
      sr_num_crtcs = 1, sr_num_outputs = 1, sr_num_modes = 1, sr_names_len = 9,
      sr_crtcs = [0x3F], sr_outputs = [0x42], sr_modes = [example_mode],
      sr_names = example_names\<rparr>"

definition example_output_info :: xcb_randr_get_output_info_reply_t where
  "example_output_info =
     \<lparr>oi_status = 0, oi_timestamp = 1000, oi_crtc = 0x3F, oi_mm_width = 800,
      oi_mm_height = 340, oi_connection = 0, oi_subpixel_order = 0, oi_num_crtcs = 1,
      oi_num_modes = 1, oi_num_preferred = 1, oi_num_clones = 0, oi_name_len = 4,
      oi_crtcs = [0x3F], oi_modes = [0x50], oi_clones = [],
      oi_name = [0x44, 0x50, 0x2D, 0x31]\<rparr>"

definition example_crtc_info :: xcb_randr_get_crtc_info_reply_t where
  "example_crtc_info =
     \<lparr>ci_status = 0, ci_timestamp = 1000, ci_x = 0, ci_y = 0, ci_width = 3840,
      ci_height = 1080, ci_mode = 0x50, ci_rotation = 1, ci_rotations = 1,
      ci_num_outputs = 1, ci_num_possible_outputs = 1, ci_outputs = [0x42],
      ci_possible = [0x42]\<rparr>"

definition example_leaf_name :: "u32 \<Rightarrow> u8 list" where
  "example_leaf_name n = oi_name example_output_info @ [0x7E] @ decimal (unat n)"

definition example_ctx :: split_ctx where
  "example_ctx =
     \<lparr>cx_resources = example_resources, cx_output = 0x42,
      cx_output_info = example_output_info, cx_crtc_info = example_crtc_info,
      cx_leaf_name = example_leaf_name\<rparr>"

definition no_fakes :: split_state where
  "no_fakes = \<lparr>sp_n = 0, sp_crtcs = [], sp_outputs = [], sp_modes = []\<rparr>"

text \<open>
  The real library for that monitor (its EDID property is three bytes here), a process
  environment with neither \<^verbatim>\<open>XDG_CONFIG_HOME\<close> nor \<^verbatim>\<open>HOME\<close>, the engine at load time,
  and the snapshot of the monitor split in two halves.
\<close>

definition example_backend :: real_backend where
  "example_backend =
     \<lparr>be_output_info = (\<lambda>xid. if xid = 0x42 then Some example_output_info else None),
      be_crtc_info = (\<lambda>xid. if xid = 0x3F then Some example_crtc_info else None),
      be_edid_property = (\<lambda>xid. if xid = 0x42 then Some [0x00, 0xFF, 0xFF] else None),
      be_printed_name = (\<lambda>oi n. oi_name oi @ [0x7E] @ decimal (unat n))\<rparr>"

definition bare_env :: os_env where
  "bare_env =
     \<lparr>env_XDG_CONFIG_HOME = None, env_HOME = None, os_access = (\<lambda>path. False),
      os_open = (\<lambda>path. False), os_mmap = (\<lambda>path. None)\<rparr>"

definition initial_engine :: engine where
  "initial_engine =
     \<lparr>eg_config_file = None, eg_fakeScreenResources = NullPtr,
      eg_crtc_info_cookies = [], eg_output_info_cookies = []\<rparr>"

definition example_fakes :: split_state where
  "example_fakes =
     foldl (add_leaf example_ctx) no_fakes [(0, 0, 1920, 1080), (1920, 0, 1920, 1080)]"

definition example_snapshot :: FakeScreenResources where
  "example_snapshot =
     FakeScreenResources_new example_resources (sp_crtcs example_fakes)
       (sp_outputs example_fakes) (sp_modes example_fakes)"

text \<open>
  A record for another monitor (fingerprint \<open>00aa\<close>) and a record for this one
  (fingerprint \<open>00ffff\<close>), both at 3840x1080 with the plan "vertical split at 1920".
\<close>

definition other_entry :: config_entry where
  "other_entry =
     \<lparr>ce_name = [0x6F, 0x6E, 0x65] @ replicate 125 0,
      ce_edid = [0x30, 0x30, 0x61, 0x61] @ replicate 764 0,
      ce_width = 3840, ce_height = 1080,
      ce_payload = chr_V # unsigned_bytes 1920 @ [chr_N, chr_N]\<rparr>"

definition this_entry :: config_entry where
  "this_entry =
     \<lparr>ce_name = [0x74, 0x77, 0x6F] @ replicate 125 0,
      ce_edid = [0x30, 0x30, 0x66, 0x66, 0x66, 0x66] @ replicate 762 0,
      ce_width = 3840, ce_height = 1080,
      ce_payload = chr_V # unsigned_bytes 1920 @ [chr_N, chr_N]\<rparr>"

text \<open>
  The same snapshot over a real reply of 65535 controllers whose name blob is the
  three bytes \<open>A\<close>, NUL, \<open>B\<close>.
\<close>

definition crowded_snapshot :: FakeScreenResources where
  "crowded_snapshot =
     example_snapshot
       \<lparr>fsr_origRes := example_resources
          \<lparr>sr_num_crtcs := 65535, sr_crtcs := replicate 65535 0x3F,
           sr_names_len := 3, sr_names := [0x41, 0, 0x42]\<rparr>\<rparr>"

text \<open>
  A process whose \<^verbatim>\<open>HOME\<close> holds a configuration file made of these two records.
\<close>

definition home_env :: os_env where
  "home_env =
     \<lparr>env_XDG_CONFIG_HOME = None, env_HOME = Some ''/home/u'',
      os_access = (\<lambda>path. path = ''/home/u/.config/fakexrandr.bin''),
      os_open = (\<lambda>path. path = ''/home/u/.config/fakexrandr.bin''),
      os_mmap = (\<lambda>path. if path = ''/home/u/.config/fakexrandr.bin''
                         then Some (entry_bytes other_entry @ entry_bytes this_entry)
                         else None)\<rparr>"

text \<open>A plan of \<open>k + 1\<close> leaves: \<open>k\<close> vertical splits at offset 1, each of the rest.\<close>

fun comb :: "nat \<Rightarrow> plan" where
  "comb 0 = Leaf"
| "comb (Suc k) = VSplit 1 Leaf (comb k)"

subsection \<open>Bits of the mask\<close>

lemma XID_SPLIT_MASK_shape: "XID_SPLIT_MASK = push_bit 21 (mask 10)"
  by (simp add: XID_SPLIT_MASK_def mask_eq_exp_minus_1)

lemma bit_XID_SPLIT_MASK: "bit XID_SPLIT_MASK k \<longleftrightarrow> 21 \<le> k \<and> k < 31"
  by (auto simp add: XID_SPLIT_MASK_shape bit_simps)

lemma reserved_clear_bits:
  assumes "real AND XID_SPLIT_MASK = 0" and "21 \<le> k" and "k < 31"
  shows "\<not> bit real k"
proof
  assume "bit real k"
  with assms(2,3) have "bit (real AND XID_SPLIT_MASK) k"
    by (simp add: bit_and_iff bit_XID_SPLIT_MASK)
  with assms(1) show False by simp
qed

lemma high_clear_bits:
  assumes "real AND XID_SPLIT_MASK = 0" and "\<not> bit real 31" and "21 \<le> k"
  shows "\<not> bit real k"
proof (cases "k < 31")
  case True
  with assms(1,3) show ?thesis by (rule_tac reserved_clear_bits)
next
  case False
  show ?thesis
  proof (cases "k = 31")
    case True
    with assms(2) show ?thesis by simp
  next
    case False
    with \<open>\<not> k < 31\<close> have "32 \<le> k" by simp
    then show ?thesis using bit_imp_le_length [of real k] by auto
  qed
qed

lemma index_bits:
  assumes "(i :: u32) < 1024" and "bit i k"
  shows "k < 10"
proof -
  from assms(1) have "i < 2 ^ 10" by simp
  then have "i AND mask 10 = i" by (rule less_mask_eq)
  with assms(2) have "bit (i AND mask 10) k" by simp
  then show ?thesis by (simp only: bit_and_iff bit_mask_iff)
qed

lemma xid_original_augmentXID:
  assumes "real AND XID_SPLIT_MASK = 0" and "i < 1024"
  shows "xid_original (augmentXID real i) = real"
proof (rule bit_word_eqI)
  fix n assume "n < LENGTH(32)"
  then have n32: "n < 32" by simp
  have lo: "bit i k \<Longrightarrow> k < 10" for k
    using index_bits [OF assms(2)] .
  have res: "21 \<le> n \<Longrightarrow> n < 31 \<Longrightarrow> \<not> bit real n"
    using reserved_clear_bits [OF assms(1)] .
  show "bit (xid_original (augmentXID real i)) n = bit real n"
    using n32 res lo [of "n - 21"]
    by (auto simp add: xid_original_def augmentXID_def XID_SPLIT_SHIFT_def bit_simps
        bit_XID_SPLIT_MASK)
qed

lemma xid_counter_augmentXID:
  assumes "real AND XID_SPLIT_MASK = 0" and "\<not> bit real 31" and "i < 1024"
  shows "xid_counter (augmentXID real i) = i"
proof (rule bit_word_eqI)
  fix n assume "n < LENGTH(32)"
  then have n32: "n < 32" by simp
  have hi: "\<not> bit real (21 + n)"
    using high_clear_bits [OF assms(1,2), of "21 + n"] by simp
  have lo: "bit i n \<Longrightarrow> n < 10"
    using index_bits [OF assms(3)] .
  show "bit (xid_counter (augmentXID real i)) n = bit i n"
    using n32 hi lo
    by (auto simp add: xid_counter_def augmentXID_def XID_SPLIT_SHIFT_def bit_simps)
qed

lemma augmentXID_zero:
  assumes "real AND XID_SPLIT_MASK = 0"
  shows "augmentXID real 0 = real"
proof (rule bit_word_eqI)
  fix n assume "n < LENGTH(32)"
  then have n32: "n < 32" by simp
  have res: "21 \<le> n \<Longrightarrow> n < 31 \<Longrightarrow> \<not> bit real n"
    using reserved_clear_bits [OF assms(1)] .
  show "bit (augmentXID real 0) n = bit real n"
    using n32 res
    by (auto simp add: augmentXID_def bit_simps bit_XID_SPLIT_MASK)
qed

lemma cleared_has_no_reserved_bits: "(xid AND NOT XID_SPLIT_MASK) AND XID_SPLIT_MASK = 0"
  by (simp add: word_bw_assocs)

subsection \<open>The traversal on a serialised tree\<close>

lemma read_unsigned_bytes: "read_unsigned (unsigned_bytes s @ rest) = Some s"
proof -
  have "ucast (ucast s :: u8) OR push_bit 8 (ucast (ucast (drop_bit 8 s) :: u8)) OR
        push_bit 16 (ucast (ucast (drop_bit 16 s) :: u8)) OR
        push_bit 24 (ucast (ucast (drop_bit 24 s) :: u8)) = s"
  proof (rule bit_word_eqI)
    fix n assume "n < LENGTH(32)"
    then have n32: "n < 32" by simp
    consider "n < 8" | "8 \<le> n" "n < 16" | "16 \<le> n" "n < 24" | "24 \<le> n"
      by linarith
    then show "bit (ucast (ucast s :: u8) OR push_bit 8 (ucast (ucast (drop_bit 8 s) :: u8)) OR
        push_bit 16 (ucast (ucast (drop_bit 16 s) :: u8)) OR
        push_bit 24 (ucast (ucast (drop_bit 24 s) :: u8)) :: u32) n = bit s n"
      using n32 by cases (auto simp add: bit_simps)
  qed
  then show ?thesis by (simp add: unsigned_bytes_def)
qed

lemma length_unsigned_bytes: "length (unsigned_bytes s) = 4"
  by (simp add: unsigned_bytes_def)

lemma tags_differ: "chr_H \<noteq> chr_N" "chr_V \<noteq> chr_N" "chr_V \<noteq> chr_H"
  by (simp_all add: chr_N_def chr_H_def chr_V_def)

lemma split_H:
  "config_foreach_split ctx (chr_H # unsigned_bytes s @ rest) st x y width height =
     (case config_foreach_split ctx rest st x y width s of
        Inl e \<Rightarrow> Inl e
      | Inr (config', st') \<Rightarrow>
          config_foreach_split ctx config' st' x (y + s) width (height - s))"
  by (simp add: read_unsigned_bytes length_unsigned_bytes tags_differ)

lemma split_V:
  "config_foreach_split ctx (chr_V # unsigned_bytes s @ rest) st x y width height =
     (case config_foreach_split ctx rest st x y s height of
        Inl e \<Rightarrow> Inl e
      | Inr (config', st') \<Rightarrow>
          config_foreach_split ctx config' st' (x + s) y (width - s) height)"
  by (simp add: read_unsigned_bytes length_unsigned_bytes tags_differ)

lemma split_N:
  "config_foreach_split ctx (chr_N # rest) st x y width height =
     (case new_leaf ctx st x y width height of Inl e \<Rightarrow> Inl e | Inr st' \<Rightarrow> Inr (rest, st'))"
  by simp

lemma split_Unknown:
  assumes "t \<noteq> chr_N" "t \<noteq> chr_H" "t \<noteq> chr_V"
  shows "config_foreach_split ctx (t # unsigned_bytes s @ rest) st x y width height =
           Inl AssertionFailed"
  using assms by (simp add: read_unsigned_bytes)

declare config_foreach_split.simps [simp del]

lemma config_foreach_split_serialise:
  assumes "ci_width (cx_crtc_info ctx) \<noteq> 0" and "ci_height (cx_crtc_info ctx) \<noteq> 0"
    and "known_tags p"
  shows "config_foreach_split ctx (serialise p @ rest) st x y width height =
           Inr (rest, foldl (add_leaf ctx) st (leaf_rects p (x, y, width, height)))"
  using assms(3)
proof (induction p arbitrary: rest st x y width height)
  case Leaf
  from assms(1,2) show ?case by (simp add: split_N new_leaf_def)
next
  case (HSplit s a b)
  then have a: "known_tags a" and b: "known_tags b" by simp_all
  show ?case
    by (simp add: split_H HSplit.IH(1) [OF a] HSplit.IH(2) [OF b])
next
  case (VSplit s a b)
  then have a: "known_tags a" and b: "known_tags b" by simp_all
  show ?case
    by (simp add: split_V VSplit.IH(1) [OF a] VSplit.IH(2) [OF b])
next
  case (Unknown t s)
  then show ?case by simp
qed

text \<open>What a run of leaves adds to the three lists and to the counter.\<close>

lemma foldl_add_leaf_outputs:
  "length (sp_outputs (foldl (add_leaf ctx) st rs)) = length (sp_outputs st) + length rs"
  by (induction rs arbitrary: st) (auto simp add: add_leaf_def Let_def split: prod.splits)

lemma foldl_add_leaf_crtcs:
  "length (sp_crtcs (foldl (add_leaf ctx) st rs)) = length (sp_crtcs st) + length rs"
  by (induction rs arbitrary: st) (auto simp add: add_leaf_def Let_def split: prod.splits)

lemma find_Some_member: "find P xs = Some x \<Longrightarrow> x \<in> set xs \<and> P x"
  by (induction xs) (auto split: if_splits)

lemma length_leaf_modes:
  "length (leaf_modes ctx n width height) =
     (if \<exists>m \<in> set (take (unat (sr_num_modes (cx_resources ctx))) (sr_modes (cx_resources ctx))).
           mi_id m = ci_mode (cx_crtc_info ctx)
      then 1 else 0)"
  by (auto simp add: leaf_modes_def Let_def find_None_iff split: option.splits dest: find_Some_member)

lemma foldl_add_leaf_modes:
  "length (sp_modes (foldl (add_leaf ctx) st rs)) =
     length (sp_modes st) +
     (if \<exists>m \<in> set (take (unat (sr_num_modes (cx_resources ctx))) (sr_modes (cx_resources ctx))).
           mi_id m = ci_mode (cx_crtc_info ctx)
      then length rs else 0)"
  by (induction rs arbitrary: st)
    (auto simp add: add_leaf_def Let_def length_leaf_modes split: prod.splits)

lemma length_leaf_rects: "known_tags p \<Longrightarrow> length (leaf_rects p r) = leaf_count p"
  by (induction p r rule: leaf_rects.induct) auto

subsection \<open>Tiling\<close>

lemma range_split:
  fixes s h d :: u32
  assumes "s \<le> h"
  shows "d < h \<longleftrightarrow> d < s \<or> d - s < h - s" and "\<not> (d < s \<and> d - s < h - s)"
  using assms by uint_arith+

lemma tiles_single: "tiles [r] r"
  by (simp add: tiles_def)

lemma tiles_union: "tiles rs r \<Longrightarrow> in_rect r p \<longleftrightarrow> (\<exists>q \<in> set rs. in_rect q p)"
  unfolding tiles_def by blast

lemma tiles_covers: "tiles rs r \<Longrightarrow> q \<in> set rs \<Longrightarrow> in_rect q p \<Longrightarrow> in_rect r p"
  unfolding tiles_def by blast

lemma tiles_disjoint:
  "tiles rs r \<Longrightarrow> i < j \<Longrightarrow> j < length rs \<Longrightarrow> in_rect (rs ! i) p \<Longrightarrow> \<not> in_rect (rs ! j) p"
  unfolding tiles_def by blast

lemma tiles_append:
  assumes t1: "tiles rs1 r1" and t2: "tiles rs2 r2"
    and cover: "\<And>p. in_rect r p \<longleftrightarrow> in_rect r1 p \<or> in_rect r2 p"
    and apart: "\<And>p. \<not> (in_rect r1 p \<and> in_rect r2 p)"
  shows "tiles (rs1 @ rs2) r"
proof -
  have union: "in_rect r p \<longleftrightarrow> (\<exists>q \<in> set (rs1 @ rs2). in_rect q p)" for p
    using tiles_union [OF t1, of p] tiles_union [OF t2, of p] cover [of p] by auto
  have disj: "\<not> in_rect ((rs1 @ rs2) ! j) p"
    if "i < j" "j < length (rs1 @ rs2)" "in_rect ((rs1 @ rs2) ! i) p" for i j p
  proof (cases "j < length rs1")
    case True
    with that have "j < length rs1" "in_rect (rs1 ! i) p" by (auto simp add: nth_append)
    with that(1) True show ?thesis
      using tiles_disjoint [OF t1, of i j p] by (simp add: nth_append)
  next
    case False
    note jright = this
    show ?thesis
    proof (cases "i < length rs1")
      case True
      with that have "in_rect (rs1 ! i) p" by (simp add: nth_append)
      with True have "in_rect r1 p"
        using tiles_covers [OF t1, of "rs1 ! i" p] by simp
      with apart have n2: "\<not> in_rect r2 p" by blast
      from jright that have "j - length rs1 < length rs2" by auto
      then have "rs2 ! (j - length rs1) \<in> set rs2" by simp
      with n2 have "\<not> in_rect (rs2 ! (j - length rs1)) p"
        using tiles_covers [OF t2, of "rs2 ! (j - length rs1)" p] by blast
      with jright show ?thesis by (simp add: nth_append)
    next
      case False
      with jright that have "i - length rs1 < j - length rs1" "j - length rs1 < length rs2"
        "in_rect (rs2 ! (i - length rs1)) p" by (auto simp add: nth_append)
      with t2 have "\<not> in_rect (rs2 ! (j - length rs1)) p" by (rule_tac tiles_disjoint)
      with jright show ?thesis by (simp add: nth_append)
    qed
  qed
  from union disj show ?thesis unfolding tiles_def by blast
qed

lemma leaf_rects_tile:
  assumes "known_tags p" and "offsets_fit p width height"
  shows "tiles (leaf_rects p (x, y, width, height)) (x, y, width, height)"
  using assms
proof (induction p arbitrary: x y width height)
  case Leaf
  show ?case by (simp add: tiles_single)
next
  case (HSplit s a b)
  then have ta: "tiles (leaf_rects a (x, y, width, s)) (x, y, width, s)"
    and tb: "tiles (leaf_rects b (x, y + s, width, height - s)) (x, y + s, width, height - s)"
    and fit: "s \<le> height"
    by simp_all
  have sub: "py - (y + s) = py - y - s" for py by simp
  show ?case
    unfolding leaf_rects.simps
  proof (rule tiles_append [OF ta tb])
    fix p :: "u32 \<times> u32"
    obtain px py where p: "p = (px, py)" by (cases p)
    show "in_rect (x, y, width, height) p \<longleftrightarrow>
            in_rect (x, y, width, s) p \<or> in_rect (x, y + s, width, height - s) p"
      using range_split(1) [OF fit, of "py - y"] by (auto simp add: p sub)
    show "\<not> (in_rect (x, y, width, s) p \<and> in_rect (x, y + s, width, height - s) p)"
      using range_split(2) [OF fit, of "py - y"] by (auto simp add: p sub)
  qed
next
  case (VSplit s a b)
  then have ta: "tiles (leaf_rects a (x, y, s, height)) (x, y, s, height)"
    and tb: "tiles (leaf_rects b (x + s, y, width - s, height)) (x + s, y, width - s, height)"
    and fit: "s \<le> width"
    by simp_all
  have sub: "px - (x + s) = px - x - s" for px by simp
  show ?case
    unfolding leaf_rects.simps
  proof (rule tiles_append [OF ta tb])
    fix p :: "u32 \<times> u32"
    obtain px py where p: "p = (px, py)" by (cases p)
    show "in_rect (x, y, width, height) p \<longleftrightarrow>
            in_rect (x, y, s, height) p \<or> in_rect (x + s, y, width - s, height) p"
      using range_split(1) [OF fit, of "px - x"] by (auto simp add: p sub)
    show "\<not> (in_rect (x, y, s, height) p \<and> in_rect (x + s, y, width - s, height) p)"
      using range_split(2) [OF fit, of "px - x"] by (auto simp add: p sub)
  qed
next
  case (Unknown t s)
  then show ?case by simp
qed

subsection \<open>The scan over records laid end to end\<close>

lemma length_entry_bytes: "entry_ok e \<Longrightarrow> length (entry_bytes e) = 912 + length (ce_payload e)"
  by (simp add: entry_bytes_def entry_ok_def length_unsigned_bytes)

lemma read_unsigned_drop:
  "length pre = k \<Longrightarrow> read_unsigned (drop k (pre @ unsigned_bytes s @ rest)) = Some s"
  by (simp add: read_unsigned_bytes)

lemma read_record_entry_bytes:
  assumes "entry_ok e"
  shows "read_record (entry_bytes e @ rest) =
           Some (word_of_nat (908 + length (ce_payload e)), ce_edid e, ce_width e, ce_height e)"
proof -
  let ?sz = "unsigned_bytes (word_of_nat (128 + 768 + 4 + 4 + 4 + length (ce_payload e)))"
  let ?tail = "unsigned_bytes (word_of_nat (length (ce_payload e))) @ ce_payload e @ rest"
  from assms have n: "length (ce_name e) = 128" and d: "length (ce_edid e) = 768"
    by (simp_all add: entry_ok_def)
  have whole: "entry_bytes e @ rest =
      ?sz @ ce_name e @ ce_edid e @ unsigned_bytes (ce_width e) @ unsigned_bytes (ce_height e) @ ?tail"
    by (simp add: entry_bytes_def)
  have r0: "read_unsigned (entry_bytes e @ rest) =
      Some (word_of_nat (128 + 768 + 4 + 4 + 4 + length (ce_payload e)))"
    unfolding whole by (rule read_unsigned_bytes)
  have r1: "read_unsigned (drop (4 + 128 + 768) (entry_bytes e @ rest)) = Some (ce_width e)"
    using read_unsigned_drop [of "?sz @ ce_name e @ ce_edid e" "4 + 128 + 768" "ce_width e"
        "unsigned_bytes (ce_height e) @ ?tail"] n d
    by (simp add: whole length_unsigned_bytes)
  have r2: "read_unsigned (drop (4 + 128 + 768 + 4) (entry_bytes e @ rest)) = Some (ce_height e)"
    using read_unsigned_drop [of "?sz @ ce_name e @ ce_edid e @ unsigned_bytes (ce_width e)"
        "4 + 128 + 768 + 4" "ce_height e" ?tail] n d
    by (simp add: whole length_unsigned_bytes)
  have r3: "read_unsigned (drop (4 + 128 + 768 + 4 + 4) (entry_bytes e @ rest)) =
      Some (word_of_nat (length (ce_payload e)))"
    using read_unsigned_drop [of "?sz @ ce_name e @ ce_edid e @ unsigned_bytes (ce_width e) @
        unsigned_bytes (ce_height e)" "4 + 128 + 768 + 4 + 4" "word_of_nat (length (ce_payload e))"
        "ce_payload e @ rest"] n d
    by (simp add: whole length_unsigned_bytes)
  have fp: "take 768 (drop (4 + 128) (entry_bytes e @ rest)) = ce_edid e"
    using n d by (simp add: whole length_unsigned_bytes)
  show ?thesis
    unfolding read_record_def r0 r1 r2 r3 fp by simp
qed

lemma entry_step_size:
  assumes "entry_ok e"
  shows "unat (4 + word_of_nat (908 + length (ce_payload e)) :: u32) = 912 + length (ce_payload e)"
proof -
  have "(4 :: u32) + word_of_nat (908 + length (ce_payload e)) =
      word_of_nat (912 + length (ce_payload e))"
    by simp
  moreover from assms have "912 + length (ce_payload e) < 2 ^ LENGTH(32)"
    by (simp add: entry_ok_def)
  ultimately show ?thesis
    by (simp only: of_nat_inverse [OF refl])
qed

lemma sint_small:
  assumes "n < 2 ^ 31"
  shows "sint (word_of_nat n :: u32) = int n"
proof -
  have "sint (word_of_nat n :: u32) = signed_take_bit 31 (int n)"
    by (simp add: signed_of_nat)
  also from assms have "\<dots> = int n"
    by (simp add: signed_take_bit_int_eq_self)
  finally show ?thesis .
qed

lemma replicate_4: "replicate (4 + k) (0 :: u8) = 0 # 0 # 0 # 0 # replicate k 0"
proof -
  have "(4 :: nat) + k = Suc (Suc (Suc (Suc k)))" by simp
  then show ?thesis by (simp only: replicate_Suc)
qed

lemma read_unsigned_zeros:
  "read_unsigned (replicate m 0) = (if 4 \<le> m then Some 0 else None)"
proof (cases "4 \<le> m")
  case True
  then obtain k where m: "m = 4 + k"
    using le_Suc_ex by blast
  have "read_unsigned (replicate (4 + k) 0) = Some 0"
    unfolding replicate_4 by simp
  with True m show ?thesis by simp
next
  case False
  then consider "m = 0" | "m = Suc 0" | "m = Suc (Suc 0)" | "m = Suc (Suc (Suc 0))"
    by linarith
  then show ?thesis by cases simp_all
qed

lemma read_record_zeros:
  "read_record (replicate m 0) =
     (if 912 \<le> m then Some (0, replicate 768 0, 0, 0) else None)"
proof (cases "912 \<le> m")
  case True
  then have "4 \<le> m" "4 \<le> m - 900" "4 \<le> m - 904" "4 \<le> m - 908" "768 \<le> m - 132"
    by simp_all
  then show ?thesis by (simp add: read_record_def read_unsigned_zeros min_def)
next
  case False
  then have "\<not> 4 \<le> m - 908" by simp
  then show ?thesis using False by (simp add: read_record_def read_unsigned_zeros)
qed

lemma strncmp_eq_differs:
  "0 < n \<Longrightarrow> a \<noteq> b \<Longrightarrow> strncmp_eq (a # s1) (b # s2) n = Some False"
  by (cases n) simp_all

lemma replicate_768: "replicate 768 (0 :: u8) = 0 # replicate 767 0"
proof -
  have "(768 :: nat) = Suc 767" by simp
  then show ?thesis by (simp only: replicate_Suc)
qed

lemma config_record_at_end:
  assumes "b \<noteq> 0"
  shows "config_record be (mapped config_file) resources outp (b # t) fakes (length config_file) =
           (if page_fill (length config_file) < 912 then Return (Inl ReadPastEnd)
            else Advance (length config_file + 4))"
proof -
  have tail: "drop (length config_file) (mapped config_file) =
      replicate (page_fill (length config_file)) 0"
    by (simp add: mapped_def)
  have differ: "strncmp_eq (replicate 768 0) (b # t) 768 = Some False"
    unfolding replicate_768 using assms by (intro strncmp_eq_differs) simp_all
  show ?thesis
    unfolding config_record_def tail read_record_zeros
    by (simp add: differ)
qed

lemma config_scan_at_end:
  assumes "b \<noteq> 0" and "length config_file + 4 < 2 ^ 31"
  shows "config_scan be config_file resources outp (b # t) fakes (length config_file) =
           (if page_fill (length config_file) < 912 then Some (Inl ReadPastEnd)
            else Some (Inr (0, fakes)))"
proof -
  from assms(2) have small: "length config_file < 2 ^ 31" by simp
  have beyond: "\<not> sint (word_of_nat (length config_file + 4) :: u32) \<le>
      sint (word_of_nat (length config_file) :: u32)"
    unfolding sint_small [OF small] sint_small [OF assms(2)] by simp
  have out: "config_scan be config_file resources outp (b # t) fakes (length config_file + 4) =
      Some (Inr (0, fakes))"
    by (subst config_scan.simps) (simp only: beyond if_False)
  show ?thesis
    by (subst config_scan.simps)
      (simp add: config_record_at_end [OF assms(1)] out del: of_nat_add)
qed

lemma config_record_skipped:
  assumes "entry_ok e" and "skipped be outp target_edid e"
  shows "config_record be (pre @ entry_bytes e @ rest) resources outp target_edid fakes (length pre) =
           Advance (length pre + length (entry_bytes e))"
proof -
  have rd: "read_record (drop (length pre) (pre @ entry_bytes e @ rest)) =
      Some (word_of_nat (908 + length (ce_payload e)), ce_edid e, ce_width e, ce_height e)"
    by (simp add: read_record_entry_bytes [OF assms(1)])
  have adv: "length pre + unat (4 + word_of_nat (908 + length (ce_payload e)) :: u32) =
      length pre + length (entry_bytes e)"
    by (simp only: entry_step_size [OF assms(1)] length_entry_bytes [OF assms(1)])
  from assms(2) show ?thesis
    unfolding config_record_def rd skipped_def
    by (auto simp only: option.case prod.case bool.case adv simp_thms if_False
        split: option.splits)
qed

lemma config_scan_skip:
  assumes "\<forall>e \<in> set entries. entry_ok e \<and> skipped be outp target_edid e"
    and "length (pre @ concat (map entry_bytes entries) @ rest) < 2 ^ 31"
  shows "config_scan be (pre @ concat (map entry_bytes entries) @ rest) resources outp
           target_edid fakes (length pre) =
         config_scan be (pre @ concat (map entry_bytes entries) @ rest) resources outp
           target_edid fakes (length (pre @ concat (map entry_bytes entries)))"
  using assms
proof (induction entries arbitrary: pre)
  case Nil
  show ?case by simp
next
  case (Cons e entries)
  let ?file = "pre @ concat (map entry_bytes (e # entries)) @ rest"
  from Cons.prems have ok: "entry_ok e" and sk: "skipped be outp target_edid e" by simp_all
  from Cons.prems(2) have small: "length pre < 2 ^ 31" "length ?file < 2 ^ 31" by simp_all
  have le: "sint (word_of_nat (length pre) :: u32) \<le> sint (word_of_nat (length ?file) :: u32)"
    by (simp only: sint_small [OF small(1)] sint_small [OF small(2)]) simp
  have step: "config_record be (mapped ?file) resources outp target_edid fakes (length pre) =
      Advance (length (pre @ entry_bytes e))"
    using config_record_skipped [OF ok sk, of pre
        "concat (map entry_bytes entries) @ rest @ replicate (page_fill (length ?file)) 0"]
    by (simp add: mapped_def)
  have fileq: "?file = (pre @ entry_bytes e) @ concat (map entry_bytes entries) @ rest" by simp
  have "config_scan be ?file resources outp target_edid fakes (length pre) =
      config_scan be ?file resources outp target_edid fakes (length (pre @ entry_bytes e))"
    by (subst config_scan.simps) (simp only: le step if_True scan_step.case)
  also have "\<dots> = config_scan be ?file resources outp target_edid fakes
      (length ((pre @ entry_bytes e) @ concat (map entry_bytes entries)))"
    unfolding fileq
    using Cons.IH [of "pre @ entry_bytes e"] Cons.prems by simp
  finally show ?case by simp
qed

lemma config_scan_no_match:
  assumes "\<forall>e \<in> set entries. entry_ok e \<and> skipped be outp (b # t) e"
    and "b \<noteq> 0"
    and "length (concat (map entry_bytes entries)) + 4 < 2 ^ 31"
  shows "config_scan be (concat (map entry_bytes entries)) resources outp (b # t) fakes 0 =
           (if page_fill (length (concat (map entry_bytes entries))) < 912
            then Some (Inl ReadPastEnd) else Some (Inr (0, fakes)))"
proof -
  from assms(3) have small: "length ([] @ concat (map entry_bytes entries) @ []) < 2 ^ 31"
    by simp
  from config_scan_skip [OF assms(1) small, of resources fakes]
  have "config_scan be (concat (map entry_bytes entries)) resources outp (b # t) fakes 0 =
      config_scan be (concat (map entry_bytes entries)) resources outp (b # t) fakes
        (length (concat (map entry_bytes entries)))"
    by simp
  then show ?thesis
    by (simp only: config_scan_at_end [OF assms(2,3)])
qed

lemma config_record_match:
  assumes "entry_ok e"
    and "strncmp_eq (ce_edid e) target_edid 768 = Some True"
    and "be_output_info be outp = Some output_info"
    and "be_crtc_info be (oi_crtc output_info) = Some output_crtc"
    and "uint (ci_width output_crtc) = sint (ce_width e)"
    and "uint (ci_height output_crtc) = sint (ce_height e)"
  shows "config_record be (pre @ entry_bytes e @ rest) resources outp target_edid fakes (length pre) =
           (case config_foreach_split
                   \<lparr>cx_resources = resources, cx_output = outp,
                    cx_output_info = output_info, cx_crtc_info = output_crtc,
                    cx_leaf_name = be_printed_name be output_info\<rparr>
                   (ce_payload e @ rest) (fakes\<lparr>sp_n := 0\<rparr>) 0 0 (ce_width e) (ce_height e) of
              Inl e \<Rightarrow> Return (Inl e)
            | Inr (config', fakes') \<Rightarrow> Return (Inr (1, fakes')))"
proof -
  have rd: "read_record (drop (length pre) (pre @ entry_bytes e @ rest)) =
      Some (word_of_nat (908 + length (ce_payload e)), ce_edid e, ce_width e, ce_height e)"
    by (simp add: read_record_entry_bytes [OF assms(1)])
  from assms(1) have "length (ce_name e) = 128" "length (ce_edid e) = 768"
    by (simp_all add: entry_ok_def)
  then have payload: "drop (length pre + (4 + 128 + 768 + 4 + 4 + 4)) (pre @ entry_bytes e @ rest) =
      ce_payload e @ rest"
    by (simp add: entry_bytes_def length_unsigned_bytes)
  show ?thesis
    unfolding config_record_def rd payload
    by (simp only: option.case prod.case bool.case assms(2-6) simp_thms if_True)
qed

subsection \<open>The names buffer\<close>

lemma takeWhile_clean: "0 \<notin> set xs \<Longrightarrow> takeWhile (\<lambda>b. b \<noteq> (0 :: u8)) xs = xs"
  by (induction xs) simp_all

lemma takeWhile_is_clean: "0 \<notin> set (takeWhile (\<lambda>b. b \<noteq> (0 :: u8)) xs)"
  by (induction xs) simp_all

lemma takeWhile_nonzero_idem:
  "takeWhile (\<lambda>b. b \<noteq> 0) (takeWhile (\<lambda>b. b \<noteq> 0) xs @ takeWhile (\<lambda>b. b \<noteq> (0 :: u8)) ys) =
     takeWhile (\<lambda>b. b \<noteq> 0) xs @ takeWhile (\<lambda>b. b \<noteq> 0) ys"
proof (rule takeWhile_clean)
  show "0 \<notin> set (takeWhile (\<lambda>b. b \<noteq> 0) xs @ takeWhile (\<lambda>b. b \<noteq> (0 :: u8)) ys)"
    using takeWhile_is_clean [of xs] takeWhile_is_clean [of ys] by simp
qed

lemma concat_takeWhile_clean:
  "0 \<notin> set (concat (map (takeWhile (\<lambda>b. b \<noteq> (0 :: u8))) names))"
  using takeWhile_is_clean by (induction names) simp_all

lemma foldl_strcat:
  "foldl strcat (strcat dest src) names =
     takeWhile (\<lambda>b. b \<noteq> 0) dest @ takeWhile (\<lambda>b. b \<noteq> 0) src @
     concat (map (takeWhile (\<lambda>b. b \<noteq> 0)) names)"
proof (induction names arbitrary: dest src)
  case Nil
  show ?case by (simp add: strcat_def)
next
  case (Cons name names)
  have "strcat (strcat dest src) name =
      strcat (takeWhile (\<lambda>b. b \<noteq> 0) dest @ takeWhile (\<lambda>b. b \<noteq> 0) src) name"
    by (simp add: strcat_def)
  then show ?case
    using Cons.IH [of "takeWhile (\<lambda>b. b \<noteq> 0) dest @ takeWhile (\<lambda>b. b \<noteq> 0) src" name]
    by (simp add: takeWhile_nonzero_idem)
qed

lemma strlen_names_buffer:
  "strlen (foldl strcat buf names) =
     length (takeWhile (\<lambda>b. b \<noteq> 0) buf @ concat (map (takeWhile (\<lambda>b. b \<noteq> 0)) names))"
proof (cases names)
  case Nil
  then show ?thesis by (simp add: strlen_def)
next
  case (Cons name rest)
  let ?all = "takeWhile (\<lambda>b. b \<noteq> 0) buf @ takeWhile (\<lambda>b. b \<noteq> 0) name @
      concat (map (takeWhile (\<lambda>b. b \<noteq> (0 :: u8))) rest)"
  have "0 \<notin> set ?all"
    using takeWhile_is_clean [of buf] takeWhile_is_clean [of name] concat_takeWhile_clean [of rest]
    by simp
  then have len: "strlen ?all = length ?all"
    unfolding strlen_def by (rule arg_cong [OF takeWhile_clean])
  have "foldl strcat buf names = foldl strcat (strcat buf name) rest"
    by (simp only: Cons foldl_Cons)
  also have "\<dots> = ?all" by (rule foldl_strcat)
  finally have "strlen (foldl strcat buf names) = length ?all" by (simp only: len)
  also have "?all = takeWhile (\<lambda>b. b \<noteq> 0) buf @
      concat (map (takeWhile (\<lambda>b. b \<noteq> 0)) names)"
    by (simp only: Cons list.map concat.simps)
  finally show ?thesis .
qed

lemma names_buffer_clean:
  assumes "0 \<notin> set buf" and "\<forall>name \<in> set names. 0 \<notin> set name"
  shows "foldl strcat buf names = buf @ concat names"
proof -
  have clean: "takeWhile (\<lambda>b. b \<noteq> 0) xs = xs" if "0 \<notin> set xs" for xs :: "u8 list"
    using that by (rule takeWhile_clean)
  have all: "map (takeWhile (\<lambda>b. b \<noteq> 0)) names = names"
    using assms(2) by (induction names) (simp_all add: clean)
  show ?thesis
  proof (cases names)
    case Nil
    then show ?thesis by simp
  next
    case (Cons name rest)
    with all have "takeWhile (\<lambda>b. b \<noteq> 0) name = name"
      "map (takeWhile (\<lambda>b. b \<noteq> 0)) rest = rest" by simp_all
    have "foldl strcat buf names = foldl strcat (strcat buf name) rest"
      by (simp only: Cons foldl_Cons)
    also have "\<dots> = takeWhile (\<lambda>b. b \<noteq> 0) buf @ takeWhile (\<lambda>b. b \<noteq> 0) name @
        concat (map (takeWhile (\<lambda>b. b \<noteq> 0)) rest)"
      by (rule foldl_strcat)
    also have "\<dots> = buf @ name @ concat rest"
      by (simp only: clean [OF assms(1)] \<open>takeWhile (\<lambda>b. b \<noteq> 0) name = name\<close>
          \<open>map (takeWhile (\<lambda>b. b \<noteq> 0)) rest = rest\<close>)
    finally show ?thesis by (simp only: Cons concat.simps)
  qed
qed

lemma strlen_clean: "0 \<notin> set s \<Longrightarrow> strlen s = length s"
  unfolding strlen_def by (rule arg_cong [OF takeWhile_clean])

lemma unat_count_sum:
  "unat (c :: u16) + n < 2 ^ 16 \<Longrightarrow> unat (c + word_of_nat n) = unat c + n"
proof -
  assume a: "unat c + n < 2 ^ 16"
  then have "n < 2 ^ LENGTH(16)" by simp
  then have "unat (word_of_nat n :: u16) = n" by (rule of_nat_inverse [OF refl])
  with a show ?thesis by (simp add: unat_add_lem [THEN iffD1])
qed

subsection \<open>Facts about the lists of a snapshot\<close>

lemma xid_in_list_iff:
  "xid_in_list list xid \<longleftrightarrow> (\<exists>item \<in> set list. fo_xid item = xid \<or> fo_parent_xid item = xid)"
  by (induction list) auto

lemma foldl_add_leaf_n: "sp_n (foldl (add_leaf ctx) st rs) = sp_n st + word_of_nat (length rs)"
  by (induction rs arbitrary: st) (auto simp add: add_leaf_def Let_def split: prod.splits)

lemma foldl_add_leaf_last_xid:
  "rs \<noteq> [] \<Longrightarrow>
   fo_xid (last (sp_outputs (foldl (add_leaf ctx) st rs))) =
     augmentXID (cx_output ctx) (sp_n st + word_of_nat (length rs))"
proof (induction rs arbitrary: st)
  case Nil
  then show ?case by simp
next
  case (Cons r rs)
  show ?case
  proof (cases "rs = []")
    case True
    then show ?thesis
      by (simp add: add_leaf_def Let_def leaf_output_def FakeOutputInfo_new_def split: prod.splits)
  next
    case False
    have "sp_n (add_leaf ctx st r) = sp_n st + 1"
      by (simp add: add_leaf_def Let_def split: prod.splits)
    with Cons.IH [OF False, of "add_leaf ctx st r"] show ?thesis by (simp add: add.assoc)
  qed
qed

lemma foldl_add_leaf_parents:
  "\<forall>fo \<in> set (sp_outputs st). fo_parent_xid fo = cx_output ctx \<Longrightarrow>
   \<forall>fo \<in> set (sp_outputs (foldl (add_leaf ctx) st rs)). fo_parent_xid fo = cx_output ctx"
proof (induction rs arbitrary: st)
  case Nil
  then show ?case by simp
next
  case (Cons r rs)
  have "\<forall>fo \<in> set (sp_outputs (add_leaf ctx st r)). fo_parent_xid fo = cx_output ctx"
    using Cons.prems
    by (auto simp add: add_leaf_def Let_def leaf_output_def FakeOutputInfo_new_def split: prod.splits)
  from Cons.IH [OF this] show ?case by simp
qed

subsection \<open>The example snapshot, evaluated\<close>

lemma decimal_1920: "decimal 1920 = [0x31, 0x39, 0x32, 0x30]"
  by code_simp

lemma decimal_1080: "decimal 1080 = [0x31, 0x30, 0x38, 0x30]"
  by code_simp

lemma example_mode_names:
  "map fm_name (fsr_fake_modes example_snapshot) =
     [[0x31, 0x39, 0x32, 0x30, 0x78, 0x31, 0x30, 0x38, 0x30],
      [0x31, 0x39, 0x32, 0x30, 0x78, 0x31, 0x30, 0x38, 0x30]]"
  by (simp add: example_snapshot_def FakeScreenResources_new_def example_fakes_def
      add_leaf_def leaf_modes_def FakeModeInfo_new_def no_fakes_def example_ctx_def
      example_resources_def example_crtc_info_def example_mode_def Let_def
      decimal_1920 decimal_1080)

lemma example_snapshot_xids:
  "map fc_xid (fsr_fake_crtcs example_snapshot) = [0x20003F, 0x40003F]"
  "map fo_xid (fsr_fake_outputs example_snapshot) = [0x200042, 0x400042]"
  by (simp_all add: example_snapshot_def FakeScreenResources_new_def example_fakes_def
      add_leaf_def leaf_crtc_def leaf_output_def FakeCrtcInfo_new_def FakeOutputInfo_new_def
      no_fakes_def example_ctx_def example_output_info_def Let_def
      augmentXID_def XID_SPLIT_MASK_def XID_SPLIT_SHIFT_def)

lemma example_snapshot_lengths:
  "length (fsr_fake_crtcs example_snapshot) = 2"
  "length (fsr_fake_outputs example_snapshot) = 2"
  "length (fsr_fake_modes example_snapshot) = 2"
  using arg_cong [OF example_snapshot_xids(1), of length]
    arg_cong [OF example_snapshot_xids(2), of length]
    arg_cong [OF example_mode_names, of length]
  by simp_all

subsection \<open>Claim C1: a configuration that cannot be opened\<close>

text \<open>
  C1 fails on the code. When \<^verbatim>\<open>open_configuration\<close> fails, \<^verbatim>\<open>updateFakeResources\<close>
  returns before it assigns \<^verbatim>\<open>fakeScreenResources\<close>, and both reply functions then
  call \<^verbatim>\<open>makeReturnValue\<close> through that pointer: it is \<^verbatim>\<open>NULL\<close> on the first fetch, and
  names the object the function has just deleted on a later one. No reply is returned.
\<close>

theorem open_failure_is_fatal:
  assumes "open_configuration os = None"
  shows "xcb_randr_get_screen_resources_reply os be eng screen_resources =
           Some (Inl (if eg_fakeScreenResources eng = NullPtr then NullDereference
                      else UseAfterFree)) \<and>
         xcb_randr_get_screen_resources_current_reply os be eng screen_resources =
           Some (Inl (if eg_fakeScreenResources eng = NullPtr then NullDereference
                      else UseAfterFree))"
  using assms
  by (cases "eg_fakeScreenResources eng")
    (simp_all add: xcb_randr_get_screen_resources_reply_def
      xcb_randr_get_screen_resources_current_reply_def screen_resources_reply_def
      updateFakeResources_def)

text \<open>
  The first fetch of a process that has neither \<^verbatim>\<open>XDG_CONFIG_HOME\<close> nor \<^verbatim>\<open>HOME\<close>.
\<close>

theorem open_failure_is_fatal_witness:
  "open_configuration bare_env = None \<and>
   xcb_randr_get_screen_resources_reply bare_env example_backend initial_engine
     (Some example_resources) = Some (Inl NullDereference) \<and>
   xcb_randr_get_screen_resources_current_reply bare_env example_backend initial_engine
     (Some example_resources) = Some (Inl NullDereference)"
proof -
  have closed: "open_configuration bare_env = None"
    by (simp add: open_configuration_def bare_env_def)
  have null: "eg_fakeScreenResources initial_engine = NullPtr"
    by (simp add: initial_engine_def)
  from open_failure_is_fatal [OF closed, of example_backend initial_engine "Some example_resources"]
    closed null
  show ?thesis by simp
qed

subsection \<open>Claim C2: the codec round trip\<close>

text \<open>
  C2, as stated, at the real identifier \<open>0x80000000\<close>: its reserved bit-range is zero,
  yet bit 31 lies above the mask (which stops at bit 30), so the counter read back by
  \<^verbatim>\<open>xid >> XID_SPLIT_SHIFT\<close> from \<open>encode(real, 1)\<close> is 1025, not 1.
\<close>

theorem decode_roundtrip_counterexample:
  "(0x80000000 :: u32) AND XID_SPLIT_MASK = 0 \<and> (1 :: u32) < 1024 \<and>
   decode (augmentXID 0x80000000 1) \<noteq> (0x80000000, 1) \<and>
   decode (augmentXID 0x80000000 1) = (0x80000000, 1025)"
  by (simp add: decode_def xid_original_def xid_counter_def augmentXID_def
      XID_SPLIT_MASK_def XID_SPLIT_SHIFT_def)

text \<open>
  C2, amended: for every real identifier whose reserved bit-range is zero and whose
  bit 31 is zero as well, and every split index below 1024 (the ten bits of the
  range), decoding the encoded identifier gives back the identifier and the index;
  and encoding with index 0 gives back the identifier.
\<close>

theorem decode_roundtrip:
  assumes "real AND XID_SPLIT_MASK = 0" and "\<not> bit real 31" and "i < 1024"
  shows "decode (augmentXID real i) = (real, i) \<and> augmentXID real 0 = real"
  using assms
  by (simp add: decode_def xid_original_augmentXID xid_counter_augmentXID augmentXID_zero)

theorem decode_roundtrip_witness:
  "(0x42 :: u32) AND XID_SPLIT_MASK = 0 \<and> \<not> bit (0x42 :: u32) 31 \<and> (3 :: u32) < 1024 \<and>
   decode (augmentXID 0x42 3) = (0x42, 3) \<and> augmentXID 0x42 0 = 0x42"
proof -
  have a: "(0x42 :: u32) AND XID_SPLIT_MASK = 0" by (simp add: XID_SPLIT_MASK_def)
  have b: "\<not> bit (0x42 :: u32) 31" by (simp add: bit_iff_odd_drop_bit drop_bit_eq_div)
  have c: "(3 :: u32) < 1024" by simp
  from decode_roundtrip [OF a b c] a b c show ?thesis by simp
qed

subsection \<open>Claim C3: the leaves tile the rectangle\<close>

text \<open>
  C3, as stated, at the plan "horizontal split at offset 5, two leaves" on the
  rectangle \<open>(0, 0, 10, 3)\<close>: the traversal completes, and since \<^verbatim>\<open>height - split_pos\<close>
  is computed in \<^verbatim>\<open>unsigned int\<close> its leaves are \<open>(0, 0, 10, 5)\<close> and
  \<open>(0, 5, 10, 4294967294)\<close>. The pixel \<open>(0, 4)\<close> lies in the first leaf and outside
  the starting rectangle, so the leaves do not tile it.
\<close>

theorem split_tiles_counterexample:
  "config_foreach_split example_ctx (serialise (HSplit 5 Leaf Leaf)) no_fakes 0 0 10 3 =
     Inr ([], foldl (add_leaf example_ctx) no_fakes [(0, 0, 10, 5), (0, 5, 10, 4294967294)]) \<and>
   leaf_rects (HSplit 5 Leaf Leaf) (0, 0, 10, 3) = [(0, 0, 10, 5), (0, 5, 10, 4294967294)] \<and>
   in_rect (0, 0, 10, 5) (0, 4) \<and> \<not> in_rect (0, 0, 10, 3) (0, 4) \<and>
   \<not> tiles (leaf_rects (HSplit 5 Leaf Leaf) (0, 0, 10, 3)) (0, 0, 10, 3)"
proof -
  have nz: "ci_width (cx_crtc_info example_ctx) \<noteq> 0" "ci_height (cx_crtc_info example_ctx) \<noteq> 0"
    by (simp_all add: example_ctx_def example_crtc_info_def)
  have rects: "leaf_rects (HSplit 5 Leaf Leaf) (0, 0, 10, 3) =
      [(0, 0, 10, 5), (0, 5, 10, 4294967294)]"
    by simp
  have run: "config_foreach_split example_ctx (serialise (HSplit 5 Leaf Leaf)) no_fakes 0 0 10 3 =
     Inr ([], foldl (add_leaf example_ctx) no_fakes [(0, 0, 10, 5), (0, 5, 10, 4294967294)])"
    using config_foreach_split_serialise [OF nz, of "HSplit 5 Leaf Leaf" "[]" no_fakes 0 0 10 3]
    by (simp only: rects append_Nil2 known_tags.simps simp_thms)
  have inside: "in_rect (0, 0, 10, 5) (0, 4)" by simp
  have outside: "\<not> in_rect (0, 0, 10, 3) (0, 4)" by simp
  have apart: "\<not> tiles [(0, 0, 10, 5), (0, 5, 10, 4294967294)] (0, 0, 10, 3)"
  proof
    assume "tiles [(0, 0, 10, 5), (0, 5, 10, 4294967294)] (0, 0, 10, 3)"
    from tiles_covers [OF this, of "(0, 0, 10, 5)" "(0, 4)"] inside
    have "in_rect (0, 0, 10, 3) (0, 4)" by simp
    with outside show False by simp
  qed
  have "\<not> tiles (leaf_rects (HSplit 5 Leaf Leaf) (0, 0, 10, 3)) (0, 0, 10, 3)"
    unfolding rects by (rule apart)
  with run rects inside outside show ?thesis by (intro conjI)
qed

text \<open>
  C3, amended: for every split plan in which every offset lies within the side it
  splits (\<open>s \<le> height\<close> at a horizontal split, \<open>s \<le> width\<close> at a vertical one), every
  starting rectangle and a parent controller of nonzero size, the traversal completes,
  hands one rectangle to each leaf, and these rectangles tile the starting rectangle:
  a pixel lies in the starting rectangle exactly when it lies in some leaf, and no
  pixel lies in two leaves.
\<close>

theorem split_tiles:
  assumes "ci_width (cx_crtc_info ctx) \<noteq> 0" and "ci_height (cx_crtc_info ctx) \<noteq> 0"
    and "known_tags p" and "offsets_fit p width height"
  shows "config_foreach_split ctx (serialise p @ rest) st x y width height =
           Inr (rest, foldl (add_leaf ctx) st (leaf_rects p (x, y, width, height))) \<and>
         tiles (leaf_rects p (x, y, width, height)) (x, y, width, height)"
  using config_foreach_split_serialise [OF assms(1,2,3)] leaf_rects_tile [OF assms(3,4)]
  by simp

theorem split_tiles_witness:
  "config_foreach_split example_ctx (serialise (VSplit 1920 Leaf Leaf)) no_fakes 0 0 3840 1080 =
     Inr ([], foldl (add_leaf example_ctx) no_fakes [(0, 0, 1920, 1080), (1920, 0, 1920, 1080)]) \<and>
   tiles [(0, 0, 1920, 1080), (1920, 0, 1920, 1080)] (0, 0, 3840, 1080)"
proof -
  have nz: "ci_width (cx_crtc_info example_ctx) \<noteq> 0" "ci_height (cx_crtc_info example_ctx) \<noteq> 0"
    by (simp_all add: example_ctx_def example_crtc_info_def)
  have k: "known_tags (VSplit 1920 Leaf Leaf)" by simp
  have f: "offsets_fit (VSplit 1920 Leaf Leaf) 3840 1080" by simp
  have rects: "leaf_rects (VSplit 1920 Leaf Leaf) (0, 0, 3840, 1080) =
      [(0, 0, 1920, 1080), (1920, 0, 1920, 1080)]"
    by simp
  from split_tiles [OF nz k f, of "[]" no_fakes 0 0] show ?thesis
    by (simp only: rects append_Nil2)
qed

subsection \<open>Claim C4: one triple per leaf\<close>

text \<open>
  C4, as stated, with a screen whose mode table is empty: the plan of a single leaf
  produces one virtual output and one virtual controller and no virtual mode, since
  the loop over the real modes finds no mode to copy.
\<close>

theorem split_counts_counterexample:
  "leaf_count Leaf = 1 \<and>
   (case config_foreach_split
           (example_ctx\<lparr>cx_resources := example_resources\<lparr>sr_num_modes := 0, sr_modes := []\<rparr>\<rparr>)
           (serialise Leaf) no_fakes 0 0 3840 1080 of
      Inl e \<Rightarrow> False
    | Inr (config', st') \<Rightarrow>
        length (sp_outputs st') = 1 \<and> length (sp_crtcs st') = 1 \<and> length (sp_modes st') = 0 \<and>
        length (sp_modes st') \<noteq> leaf_count Leaf)"
  by (simp add: split_N new_leaf_def add_leaf_def leaf_modes_def example_ctx_def
      example_crtc_info_def example_resources_def no_fakes_def)

text \<open>
  C4, amended: for every plan with known tags and \<open>L\<close> leaves, applied with a parent
  controller of nonzero size, the traversal completes and appends exactly \<open>L\<close> virtual
  outputs and exactly \<open>L\<close> virtual controllers; it appends exactly \<open>L\<close> virtual modes
  when the parent controller's mode is among the modes of the real reply, and none
  otherwise.
\<close>

theorem split_counts:
  assumes "ci_width (cx_crtc_info ctx) \<noteq> 0" and "ci_height (cx_crtc_info ctx) \<noteq> 0"
    and "known_tags p"
  shows "case config_foreach_split ctx (serialise p @ rest) st x y width height of
           Inl e \<Rightarrow> False
         | Inr (config', st') \<Rightarrow>
             config' = rest \<and>
             length (sp_outputs st') = length (sp_outputs st) + leaf_count p \<and>
             length (sp_crtcs st') = length (sp_crtcs st) + leaf_count p \<and>
             length (sp_modes st') = length (sp_modes st) +
               (if \<exists>m \<in> set (take (unat (sr_num_modes (cx_resources ctx)))
                                (sr_modes (cx_resources ctx))).
                     mi_id m = ci_mode (cx_crtc_info ctx)
                then leaf_count p else 0)"
  using assms(3)
  by (simp add: config_foreach_split_serialise [OF assms] foldl_add_leaf_outputs
      foldl_add_leaf_crtcs foldl_add_leaf_modes length_leaf_rects)

theorem split_counts_witness:
  "case config_foreach_split example_ctx (serialise (VSplit 1920 Leaf Leaf)) no_fakes 0 0 3840 1080 of
     Inl e \<Rightarrow> False
   | Inr (config', st') \<Rightarrow>
       config' = [] \<and> length (sp_outputs st') = 2 \<and> length (sp_crtcs st') = 2 \<and>
       length (sp_modes st') = 2"
proof -
  have nz: "ci_width (cx_crtc_info example_ctx) \<noteq> 0" "ci_height (cx_crtc_info example_ctx) \<noteq> 0"
    by (simp_all add: example_ctx_def example_crtc_info_def)
  have k: "known_tags (VSplit 1920 Leaf Leaf)" by simp
  have found: "\<exists>m \<in> set (take (unat (sr_num_modes (cx_resources example_ctx)))
                                (sr_modes (cx_resources example_ctx))).
                     mi_id m = ci_mode (cx_crtc_info example_ctx)"
    by (simp add: example_ctx_def example_resources_def example_crtc_info_def example_mode_def)
  have start: "sp_outputs no_fakes = []" "sp_crtcs no_fakes = []" "sp_modes no_fakes = []"
    by (simp_all add: no_fakes_def)
  have count: "leaf_count (VSplit 1920 Leaf Leaf) = 2" by simp
  from split_counts [OF nz k, of "[]" no_fakes 0 0 3840 1080] show ?thesis
    by (simp only: found start count append_Nil2 if_True list.size add_0 split: sum.splits prod.splits)
qed

subsection \<open>Claim C5: malformed plans\<close>

lemma unknown_tag_stops:
  assumes "ci_width (cx_crtc_info ctx) \<noteq> 0" and "ci_height (cx_crtc_info ctx) \<noteq> 0"
    and "foreign_tags p" and "\<not> known_tags p"
  shows "config_foreach_split ctx (serialise p @ rest) st x y width height = Inl AssertionFailed"
  using assms(3,4)
proof (induction p arbitrary: rest st x y width height)
  case Leaf
  then show ?case by simp
next
  case (HSplit s a b)
  then have fa: "foreign_tags a" and fb: "foreign_tags b" by simp_all
  show ?case
  proof (cases "known_tags a")
    case True
    with HSplit.prems have "\<not> known_tags b" by simp
    from HSplit.IH(2) [OF fb this] show ?thesis
      by (simp add: split_H config_foreach_split_serialise [OF assms(1,2) True])
  next
    case False
    from HSplit.IH(1) [OF fa this] show ?thesis
      by (simp add: split_H)
  qed
next
  case (VSplit s a b)
  then have fa: "foreign_tags a" and fb: "foreign_tags b" by simp_all
  show ?case
  proof (cases "known_tags a")
    case True
    with VSplit.prems have "\<not> known_tags b" by simp
    from VSplit.IH(2) [OF fb this] show ?thesis
      by (simp add: split_V config_foreach_split_serialise [OF assms(1,2) True])
  next
    case False
    from VSplit.IH(1) [OF fa this] show ?thesis
      by (simp add: split_V)
  qed
next
  case (Unknown t s)
  then show ?case by (simp add: split_Unknown)
qed

text \<open>
  C5, as stated, at a plan with an inconsistent offset (a horizontal split at offset 5
  of a rectangle of height 3): the offset is not checked, the traversal completes
  without an error and two virtual outputs, controllers and modes are emitted.
\<close>

theorem malformed_plan_counterexample:
  "\<not> offsets_fit (HSplit 5 Leaf Leaf) 10 3 \<and>
   (case config_foreach_split example_ctx (serialise (HSplit 5 Leaf Leaf)) no_fakes 0 0 10 3 of
      Inl e \<Rightarrow> False
    | Inr (config', st') \<Rightarrow>
        length (sp_outputs st') = 2 \<and> length (sp_crtcs st') = 2 \<and> length (sp_modes st') = 2)"
proof -
  have nz: "ci_width (cx_crtc_info example_ctx) \<noteq> 0" "ci_height (cx_crtc_info example_ctx) \<noteq> 0"
    by (simp_all add: example_ctx_def example_crtc_info_def)
  have found: "\<exists>m \<in> set (take (unat (sr_num_modes (cx_resources example_ctx)))
                                (sr_modes (cx_resources example_ctx))).
                     mi_id m = ci_mode (cx_crtc_info example_ctx)"
    by (simp add: example_ctx_def example_resources_def example_crtc_info_def example_mode_def)
  have run: "config_foreach_split example_ctx (serialise (HSplit 5 Leaf Leaf)) no_fakes 0 0 10 3 =
     Inr ([], foldl (add_leaf example_ctx) no_fakes (leaf_rects (HSplit 5 Leaf Leaf) (0, 0, 10, 3)))"
    using config_foreach_split_serialise [OF nz, of "HSplit 5 Leaf Leaf" "[]" no_fakes 0 0 10 3]
    by (simp only: append_Nil2 known_tags.simps simp_thms)
  have unfit: "\<not> offsets_fit (HSplit 5 Leaf Leaf) 10 3" by simp
  have lens: "length (leaf_rects (HSplit 5 Leaf Leaf) (0, 0, 10, 3)) = 2" by simp
  have start: "sp_outputs no_fakes = []" "sp_crtcs no_fakes = []" "sp_modes no_fakes = []"
    by (simp_all add: no_fakes_def)
  from unfit found show ?thesis
    by (simp only: run sum.case prod.case foldl_add_leaf_outputs foldl_add_leaf_crtcs
        foldl_add_leaf_modes lens start list.size if_True add_0 simp_thms)
qed

text \<open>
  C5, amended: for every payload that holds a node whose tag is none of the leaf,
  horizontal-split and vertical-split tags, applied with a parent controller of
  nonzero size, the traversal stops at that node on the failed assertion
  \<^verbatim>\<open>config[0] == 'V'\<close>, which ends the process: no list of virtual objects is
  returned. There is no structured parse error, and offsets are not checked.
\<close>

theorem unknown_tag_aborts:
  assumes "ci_width (cx_crtc_info ctx) \<noteq> 0" and "ci_height (cx_crtc_info ctx) \<noteq> 0"
    and "foreign_tags p" and "\<not> known_tags p"
  shows "config_foreach_split ctx (serialise p @ rest) st x y width height = Inl AssertionFailed"
  using assms by (rule unknown_tag_stops)

theorem unknown_tag_aborts_witness:
  "config_foreach_split example_ctx (serialise (VSplit 1920 Leaf (Unknown 0x58 7)))
     no_fakes 0 0 3840 1080 = Inl AssertionFailed"
proof -
  have nz: "ci_width (cx_crtc_info example_ctx) \<noteq> 0" "ci_height (cx_crtc_info example_ctx) \<noteq> 0"
    by (simp_all add: example_ctx_def example_crtc_info_def)
  have f: "foreign_tags (VSplit 1920 Leaf (Unknown 0x58 7))"
    by (simp add: chr_N_def chr_H_def chr_V_def)
  have k: "\<not> known_tags (VSplit 1920 Leaf (Unknown 0x58 7))" by simp
  from unknown_tag_aborts [OF nz f k, where rest = "[]" and st = no_fakes and x = 0 and y = 0
      and width = 3840 and height = 1080]
  show ?thesis by (simp only: append_Nil2)
qed

subsection \<open>Claim C6: the first matching record\<close>

lemma strncmp_eq_step:
  "0 < n \<Longrightarrow> strncmp_eq (a # s1) (b # s2) n =
     (if a \<noteq> b then Some False else if a = 0 then Some True else strncmp_eq s1 s2 (n - 1))"
  by (cases n) simp_all

lemma strncmp_eq_padding:
  "0 < n \<Longrightarrow> 0 < k \<Longrightarrow> strncmp_eq (replicate k 0) (0 # s2) n = Some True"
  by (cases n; cases k) simp_all

text \<open>
  The half of C6 that holds: behind any number of skipped records, the first record
  whose fingerprint and size both match has its plan applied, and the function returns
  1. (The file here is below \<open>2\<^sup>3\<^sup>1\<close> bytes, the plan has known tags and the controller
  has a nonzero size.)
\<close>

lemma first_match_applied:
  assumes "\<forall>e \<in> set before. entry_ok e \<and> skipped be outp target_edid e"
    and "entry_ok e"
    and "strncmp_eq (ce_edid e) target_edid 768 = Some True"
    and "be_output_info be outp = Some output_info"
    and "be_crtc_info be (oi_crtc output_info) = Some output_crtc"
    and "uint (ci_width output_crtc) = sint (ce_width e)"
    and "uint (ci_height output_crtc) = sint (ce_height e)"
    and "ci_width output_crtc \<noteq> 0" and "ci_height output_crtc \<noteq> 0"
    and "ce_payload e = serialise p" and "known_tags p"
    and "length (concat (map entry_bytes before) @ entry_bytes e @ rest) < 2 ^ 31"
  shows "config_handle_output be (concat (map entry_bytes before) @ entry_bytes e @ rest)
           resources outp target_edid fakes =
         Some (Inr (1, foldl (add_leaf \<lparr>cx_resources = resources, cx_output = outp,
                                         cx_output_info = output_info, cx_crtc_info = output_crtc,
                                         cx_leaf_name = be_printed_name be output_info\<rparr>)
                          (fakes\<lparr>sp_n := 0\<rparr>)
                          (leaf_rects p (0, 0, ce_width e, ce_height e))))"
proof -
  let ?pre = "concat (map entry_bytes before)"
  let ?file = "?pre @ entry_bytes e @ rest"
  let ?ctx = "\<lparr>cx_resources = resources, cx_output = outp,
               cx_output_info = output_info, cx_crtc_info = output_crtc,
               cx_leaf_name = be_printed_name be output_info\<rparr>"
  from assms(12) have small: "length ?pre < 2 ^ 31" "length ?file < 2 ^ 31" by simp_all
  have le: "sint (word_of_nat (length ?pre) :: u32) \<le> sint (word_of_nat (length ?file) :: u32)"
    by (simp only: sint_small [OF small(1)] sint_small [OF small(2)]) simp
  have nz: "ci_width (cx_crtc_info ?ctx) \<noteq> 0" "ci_height (cx_crtc_info ?ctx) \<noteq> 0"
    using assms(8,9) by simp_all
  let ?rest = "rest @ replicate (page_fill (length ?file)) 0"
  have run: "config_foreach_split ?ctx (ce_payload e @ ?rest) (fakes\<lparr>sp_n := 0\<rparr>) 0 0
      (ce_width e) (ce_height e) =
      Inr (?rest, foldl (add_leaf ?ctx) (fakes\<lparr>sp_n := 0\<rparr>)
                   (leaf_rects p (0, 0, ce_width e, ce_height e)))"
    unfolding assms(10) by (rule config_foreach_split_serialise [OF nz assms(11)])
  have memory: "mapped ?file = ?pre @ entry_bytes e @ ?rest"
    by (simp add: mapped_def)
  have step: "config_record be (mapped ?file) resources outp target_edid fakes (length ?pre) =
      Return (Inr (1, foldl (add_leaf ?ctx) (fakes\<lparr>sp_n := 0\<rparr>)
                        (leaf_rects p (0, 0, ce_width e, ce_height e))))"
    unfolding memory
    by (simp only: config_record_match [OF assms(2-7)] run sum.case prod.case)
  have "config_handle_output be ?file resources outp target_edid fakes =
      config_scan be ?file resources outp target_edid fakes (length ?pre)"
    unfolding config_handle_output_def
    using config_scan_skip [OF assms(1), of "[]" "entry_bytes e @ rest" resources fakes] assms(12)
    by simp
  also have "\<dots> = Some (Inr (1, foldl (add_leaf ?ctx) (fakes\<lparr>sp_n := 0\<rparr>)
                        (leaf_rects p (0, 0, ce_width e, ce_height e))))"
    by (subst config_scan.simps) (simp only: le step if_True scan_step.case)
  finally show ?thesis .
qed

text \<open>
  Scenario A of the specification: behind the record of another monitor, the record of
  this monitor at its current size 3840x1080 is applied, and the lists hold the two
  halves.
\<close>

lemma scenario_A:
  "config_handle_output example_backend (entry_bytes other_entry @ entry_bytes this_entry)
     example_resources 0x42 [0x30, 0x30, 0x66, 0x66, 0x66, 0x66, 0] no_fakes =
   Some (Inr (1, example_fakes))"
proof -
  let ?target = "[0x30, 0x30, 0x66, 0x66, 0x66, 0x66, 0] :: u8 list"
  have ok: "entry_ok other_entry" "entry_ok this_entry"
    by (simp_all add: entry_ok_def other_entry_def this_entry_def length_unsigned_bytes)
  have "strncmp_eq (ce_edid other_entry) ?target 768 = Some False"
    by (simp add: other_entry_def strncmp_eq_step)
  then have sk: "\<forall>e \<in> set [other_entry]. entry_ok e \<and> skipped example_backend 0x42 ?target e"
    using ok(1) by (simp add: skipped_def)
  have same: "strncmp_eq (ce_edid this_entry) ?target 768 = Some True"
    by (simp add: this_entry_def strncmp_eq_step strncmp_eq_padding)
  have oi: "be_output_info example_backend 0x42 = Some example_output_info"
    and ci: "be_crtc_info example_backend (oi_crtc example_output_info) = Some example_crtc_info"
    by (simp_all add: example_backend_def example_output_info_def)
  have w: "uint (ci_width example_crtc_info) = sint (ce_width this_entry)"
    and h: "uint (ci_height example_crtc_info) = sint (ce_height this_entry)"
    and nz: "ci_width example_crtc_info \<noteq> 0" "ci_height example_crtc_info \<noteq> 0"
    by (simp_all add: example_crtc_info_def this_entry_def)
  have payload: "ce_payload this_entry = serialise (VSplit 1920 Leaf Leaf)"
    by (simp add: this_entry_def)
  have k: "known_tags (VSplit 1920 Leaf Leaf)" by simp
  have len: "length (concat (map entry_bytes [other_entry]) @ entry_bytes this_entry @ []) < 2 ^ 31"
    by (simp add: length_entry_bytes [OF ok(1)] length_entry_bytes [OF ok(2)])
      (simp add: other_entry_def this_entry_def length_unsigned_bytes)
  have ctx: "\<lparr>cx_resources = example_resources, cx_output = 0x42,
      cx_output_info = example_output_info, cx_crtc_info = example_crtc_info,
      cx_leaf_name = be_printed_name example_backend example_output_info\<rparr> = example_ctx"
    by (simp add: example_ctx_def example_backend_def) (rule ext, simp add: example_leaf_name_def)
  have start: "no_fakes\<lparr>sp_n := 0\<rparr> = no_fakes"
    by (simp add: no_fakes_def)
  have rects: "leaf_rects (VSplit 1920 Leaf Leaf) (0, 0, ce_width this_entry, ce_height this_entry) =
      [(0, 0, 1920, 1080), (1920, 0, 1920, 1080)]"
    by (simp add: this_entry_def)
  from first_match_applied [OF sk ok(2) same oi ci w h nz payload k len,
      where resources = example_resources and fakes = no_fakes]
  show ?thesis
    by (simp only: ctx start rects example_fakes_def concat.simps list.map append_Nil2)
qed

lemma length_other_entry: "length (entry_bytes other_entry) = 919"
  by (simp add: entry_bytes_def other_entry_def length_unsigned_bytes)

lemma other_entry_skipped:
  "entry_ok other_entry \<and>
   skipped example_backend 0x42 [0x30, 0x30, 0x66, 0x66, 0x66, 0x66, 0] other_entry"
proof -
  have "strncmp_eq (ce_edid other_entry) [0x30, 0x30, 0x66, 0x66, 0x66, 0x66, 0] 768 =
      Some False"
    by (simp add: other_entry_def strncmp_eq_step)
  then show ?thesis
    by (simp add: skipped_def entry_ok_def other_entry_def length_unsigned_bytes)
qed

text \<open>
  C6 fails on the code where no record matches and the file ends within 912 bytes of
  the end of a page. The loop runs while
  \<^verbatim>\<open>(int)(config - config_file) <= (int)config_file_size\<close>: after the last record the
  cursor stands at the end of the file, the condition still holds, and the body reads
  a record head there, 912 bytes in all. When the zero fill of the last page holds these
  912 bytes, the head read is a record of size 0 with an empty fingerprint, the cursor
  moves by 4 and the function returns 0 with nothing added, as C6 says. When the fill
  is shorter (the file ends on a page boundary or less than 912 bytes before one), the
  read leaves the mapping. So for every file of well-formed records (at least one, below
  \<open>2\<^sup>3\<^sup>1\<close> bytes) all of which are skipped, and an output with a nonempty fingerprint:
\<close>

theorem no_match_reads_past_end:
  assumes "\<forall>e \<in> set entries. entry_ok e \<and> skipped be outp (b # t) e"
    and "entries \<noteq> []" and "b \<noteq> 0"
    and "length (concat (map entry_bytes entries)) + 4 < 2 ^ 31"
  shows "config_handle_output be (concat (map entry_bytes entries)) resources outp (b # t) fakes =
           (if page_fill (length (concat (map entry_bytes entries))) < 912
            then Some (Inl ReadPastEnd) else Some (Inr (0, fakes)))"
  unfolding config_handle_output_def using assms(1,3,4) by (rule config_scan_no_match)

text \<open>
  A file of four records for another monitor (fingerprint \<open>00aa\<close>, 919 bytes each),
  scanned for the output \<open>0x42\<close>, whose fingerprint is \<open>00ffff\<close>: the file has 3676
  bytes, its last page is filled with 420 zero bytes, and the fifth pass of the loop
  reads behind them. A file of one such record has 3177 zero bytes behind it, and the
  scan returns 0.
\<close>

theorem no_match_reads_past_end_witness:
  "get_output_edid example_backend 0x42 = Inr (6, [0x30, 0x30, 0x66, 0x66, 0x66, 0x66, 0]) \<and>
   length (concat (map entry_bytes [other_entry, other_entry, other_entry, other_entry])) = 3676 \<and>
   page_fill 3676 = 420 \<and>
   config_handle_output example_backend
     (concat (map entry_bytes [other_entry, other_entry, other_entry, other_entry]))
     example_resources 0x42 [0x30, 0x30, 0x66, 0x66, 0x66, 0x66, 0] no_fakes =
     Some (Inl ReadPastEnd) \<and>
   length (concat (map entry_bytes [other_entry])) = 919 \<and>
   page_fill 919 = 3177 \<and>
   config_handle_output example_backend (concat (map entry_bytes [other_entry]))
     example_resources 0x42 [0x30, 0x30, 0x66, 0x66, 0x66, 0x66, 0] no_fakes =
     Some (Inr (0, no_fakes))"
proof -
  have edid: "get_output_edid example_backend 0x42 = Inr (6, [0x30, 0x30, 0x66, 0x66, 0x66, 0x66, 0])"
    by (simp add: get_output_edid_def example_backend_def hex_string_def hex_digit_def)
  have len4: "length (concat (map entry_bytes [other_entry, other_entry, other_entry, other_entry])) =
      3676"
    by (simp add: length_other_entry)
  have len1: "length (concat (map entry_bytes [other_entry])) = 919"
    by (simp add: length_other_entry)
  have fill: "page_fill 3676 = 420" "page_fill 919 = 3177"
    by (simp_all add: page_fill_def PAGE_SIZE_def)
  have sk4: "\<forall>e \<in> set [other_entry, other_entry, other_entry, other_entry].
      entry_ok e \<and> skipped example_backend 0x42 (0x30 # [0x30, 0x66, 0x66, 0x66, 0x66, 0]) e"
    and sk1: "\<forall>e \<in> set [other_entry].
      entry_ok e \<and> skipped example_backend 0x42 (0x30 # [0x30, 0x66, 0x66, 0x66, 0x66, 0]) e"
    using other_entry_skipped by simp_all
  have four: "config_handle_output example_backend
      (concat (map entry_bytes [other_entry, other_entry, other_entry, other_entry]))
      example_resources 0x42 [0x30, 0x30, 0x66, 0x66, 0x66, 0x66, 0] no_fakes =
      Some (Inl ReadPastEnd)"
    using no_match_reads_past_end [OF sk4, where resources = example_resources
        and fakes = no_fakes]
    by (simp only: len4 fill) simp
  have one: "config_handle_output example_backend (concat (map entry_bytes [other_entry]))
      example_resources 0x42 [0x30, 0x30, 0x66, 0x66, 0x66, 0x66, 0] no_fakes =
      Some (Inr (0, no_fakes))"
    using no_match_reads_past_end [OF sk1, where resources = example_resources
        and fakes = no_fakes]
    by (simp only: len1 fill) simp
  from edid len4 fill(1) four len1 fill(2) one show ?thesis
    by (intro conjI)
qed

subsection \<open>Claim C7: the composed screen-resources reply\<close>

text \<open>
  C7, as stated, at a real reply of 65535 controllers whose name blob is \<open>A\<close>, NUL,
  \<open>B\<close>, with the two halves of the example as the virtual objects. The count of
  controllers is a 16-bit field and comes out as 1, not 65537, and the outputs are
  written behind one controller, so the controllers of the reply are the first real
  one alone, without the virtual ones. \<^verbatim>\<open>strcat\<close> writes the virtual names at the first
  NUL of the buffer, so the names of the reply are \<open>A\<close> followed by the two virtual
  names, not the real blob followed by them.
\<close>

theorem reply_composition_counterexample:
  "length (fsr_fake_crtcs crowded_snapshot) = 2 \<and>
   unat (sr_num_crtcs (fsr_origRes crowded_snapshot)) = 65535 \<and>
   unat (sr_num_crtcs (FakeScreenResources_makeReturnValue crowded_snapshot)) = 1 \<and>
   sr_crtcs (FakeScreenResources_makeReturnValue crowded_snapshot) = [0x3F] \<and>
   take (unat (sr_names_len (fsr_origRes crowded_snapshot))) (sr_names (fsr_origRes crowded_snapshot)) =
     [0x41, 0, 0x42] \<and>
   concat (map fm_name (fsr_fake_modes crowded_snapshot)) =
     [0x31, 0x39, 0x32, 0x30, 0x78, 0x31, 0x30, 0x38, 0x30,
      0x31, 0x39, 0x32, 0x30, 0x78, 0x31, 0x30, 0x38, 0x30] \<and>
   sr_names (FakeScreenResources_makeReturnValue crowded_snapshot) =
     [0x41, 0x31, 0x39, 0x32, 0x30, 0x78, 0x31, 0x30, 0x38, 0x30,
            0x31, 0x39, 0x32, 0x30, 0x78, 0x31, 0x30, 0x38, 0x30] \<and>
   unat (sr_num_crtcs (FakeScreenResources_makeReturnValue crowded_snapshot)) \<noteq>
     unat (sr_num_crtcs (fsr_origRes crowded_snapshot)) + length (fsr_fake_crtcs crowded_snapshot) \<and>
   sr_crtcs (FakeScreenResources_makeReturnValue crowded_snapshot) \<noteq>
     take (unat (sr_num_crtcs (fsr_origRes crowded_snapshot))) (sr_crtcs (fsr_origRes crowded_snapshot)) @
     map fc_xid (fsr_fake_crtcs crowded_snapshot) \<and>
   sr_names (FakeScreenResources_makeReturnValue crowded_snapshot) \<noteq>
     take (unat (sr_names_len (fsr_origRes crowded_snapshot))) (sr_names (fsr_origRes crowded_snapshot)) @
     concat (map fm_name (fsr_fake_modes crowded_snapshot))"
proof -
  have fakes: "fsr_fake_crtcs crowded_snapshot = fsr_fake_crtcs example_snapshot"
    "fsr_fake_modes crowded_snapshot = fsr_fake_modes example_snapshot"
    by (simp_all add: crowded_snapshot_def)
  have orig: "sr_num_crtcs (fsr_origRes crowded_snapshot) = 65535"
    "sr_crtcs (fsr_origRes crowded_snapshot) = replicate 65535 0x3F"
    "sr_names_len (fsr_origRes crowded_snapshot) = 3"
    "sr_names (fsr_origRes crowded_snapshot) = [0x41, 0, 0x42]"
    by (simp_all add: crowded_snapshot_def)
  have crtcs: "length (fsr_fake_crtcs crowded_snapshot) = 2"
    by (simp only: fakes example_snapshot_lengths)
  have names: "map fm_name (fsr_fake_modes crowded_snapshot) =
     [[0x31, 0x39, 0x32, 0x30, 0x78, 0x31, 0x30, 0x38, 0x30],
      [0x31, 0x39, 0x32, 0x30, 0x78, 0x31, 0x30, 0x38, 0x30]]"
    by (simp only: fakes example_mode_names)
  have count: "sr_num_crtcs (FakeScreenResources_makeReturnValue crowded_snapshot) = 1"
    by (simp add: FakeScreenResources_makeReturnValue_def Let_def orig crtcs)
  have first: "take (Suc 0) (replicate 65535 (0x3F :: u32)) = [0x3F]"
    by (simp add: take_Suc_conv_app_nth)
  have written: "take (Suc 0) (replicate 65535 (0x3F :: u32) @ xs) = [0x3F]" for xs
    using first by simp
  have array: "sr_crtcs (FakeScreenResources_makeReturnValue crowded_snapshot) = [0x3F]"
    by (simp add: FakeScreenResources_makeReturnValue_def Let_def orig crtcs written)
  have all: "length (take (unat (sr_num_crtcs (fsr_origRes crowded_snapshot)))
        (sr_crtcs (fsr_origRes crowded_snapshot)) @ map fc_xid (fsr_fake_crtcs crowded_snapshot)) =
      65537"
    by (simp add: orig crtcs)
  have cut: "sr_crtcs (FakeScreenResources_makeReturnValue crowded_snapshot) \<noteq>
     take (unat (sr_num_crtcs (fsr_origRes crowded_snapshot))) (sr_crtcs (fsr_origRes crowded_snapshot)) @
     map fc_xid (fsr_fake_crtcs crowded_snapshot)"
  proof
    assume "sr_crtcs (FakeScreenResources_makeReturnValue crowded_snapshot) =
     take (unat (sr_num_crtcs (fsr_origRes crowded_snapshot))) (sr_crtcs (fsr_origRes crowded_snapshot)) @
     map fc_xid (fsr_fake_crtcs crowded_snapshot)"
    then have "length (sr_crtcs (FakeScreenResources_makeReturnValue crowded_snapshot)) = 65537"
      by (simp only: all)
    then show False by (simp add: array)
  qed
  have buffer: "foldl strcat (take (unat (sr_names_len (fsr_origRes crowded_snapshot)))
        (sr_names (fsr_origRes crowded_snapshot))) (map fm_name (fsr_fake_modes crowded_snapshot)) =
     [0x41, 0x31, 0x39, 0x32, 0x30, 0x78, 0x31, 0x30, 0x38, 0x30,
            0x31, 0x39, 0x32, 0x30, 0x78, 0x31, 0x30, 0x38, 0x30]"
    unfolding names orig by (simp add: strcat_def)
  have blob: "sr_names (FakeScreenResources_makeReturnValue crowded_snapshot) =
     [0x41, 0x31, 0x39, 0x32, 0x30, 0x78, 0x31, 0x30, 0x38, 0x30,
            0x31, 0x39, 0x32, 0x30, 0x78, 0x31, 0x30, 0x38, 0x30]"
    by (simp add: FakeScreenResources_makeReturnValue_def Let_def buffer strlen_def)
  have rest: "length (fsr_fake_crtcs crowded_snapshot) = 2 \<and>
   unat (sr_num_crtcs (fsr_origRes crowded_snapshot)) = 65535 \<and>
   unat (sr_num_crtcs (FakeScreenResources_makeReturnValue crowded_snapshot)) = 1 \<and>
   sr_crtcs (FakeScreenResources_makeReturnValue crowded_snapshot) = [0x3F] \<and>
   take (unat (sr_names_len (fsr_origRes crowded_snapshot))) (sr_names (fsr_origRes crowded_snapshot)) =
     [0x41, 0, 0x42] \<and>
   concat (map fm_name (fsr_fake_modes crowded_snapshot)) =
     [0x31, 0x39, 0x32, 0x30, 0x78, 0x31, 0x30, 0x38, 0x30,
      0x31, 0x39, 0x32, 0x30, 0x78, 0x31, 0x30, 0x38, 0x30] \<and>
   sr_names (FakeScreenResources_makeReturnValue crowded_snapshot) =
     [0x41, 0x31, 0x39, 0x32, 0x30, 0x78, 0x31, 0x30, 0x38, 0x30,
            0x31, 0x39, 0x32, 0x30, 0x78, 0x31, 0x30, 0x38, 0x30] \<and>
   unat (sr_num_crtcs (FakeScreenResources_makeReturnValue crowded_snapshot)) \<noteq>
     unat (sr_num_crtcs (fsr_origRes crowded_snapshot)) + length (fsr_fake_crtcs crowded_snapshot) \<and>
   sr_names (FakeScreenResources_makeReturnValue crowded_snapshot) \<noteq>
     take (unat (sr_names_len (fsr_origRes crowded_snapshot))) (sr_names (fsr_origRes crowded_snapshot)) @
     concat (map fm_name (fsr_fake_modes crowded_snapshot))"
    using crtcs count array blob by (simp add: orig names)
  with cut show ?thesis by blast
qed

text \<open>
  C7, amended: for every snapshot rebuild, the composed reply copies the fixed header
  of the real reply, and each of \<^verbatim>\<open>num_crtcs\<close>, \<^verbatim>\<open>num_outputs\<close> and \<^verbatim>\<open>num_modes\<close> is the
  real count plus the number of virtual objects in the 16 bits of the field. For each
  of the three arrays whose real count plus number of virtual objects is below 65536,
  the count is that sum and the array holds all real entries first, followed by all
  virtual entries. When neither the real name blob nor a virtual name holds a NUL byte
  and the names together are shorter than 65536 bytes, the names of the reply are the
  real blob followed by every virtual mode's name, and \<^verbatim>\<open>names_len\<close> is their length.
\<close>

theorem reply_composition:
  fixes s :: FakeScreenResources
  defines "origRes \<equiv> fsr_origRes s"
    and "reply \<equiv> FakeScreenResources_makeReturnValue s"
  defines "blob \<equiv> take (unat (sr_names_len origRes)) (sr_names origRes)"
  shows "sr_sequence reply = sr_sequence origRes \<and> sr_length reply = sr_length origRes \<and>
         sr_timestamp reply = sr_timestamp origRes \<and>
         sr_config_timestamp reply = sr_config_timestamp origRes \<and>
         sr_num_crtcs reply = sr_num_crtcs origRes + word_of_nat (length (fsr_fake_crtcs s)) \<and>
         sr_num_outputs reply = sr_num_outputs origRes + word_of_nat (length (fsr_fake_outputs s)) \<and>
         sr_num_modes reply = sr_num_modes origRes + word_of_nat (length (fsr_fake_modes s)) \<and>
         (unat (sr_num_crtcs origRes) + length (fsr_fake_crtcs s) < 2 ^ 16 \<longrightarrow>
            unat (sr_num_crtcs reply) = unat (sr_num_crtcs origRes) + length (fsr_fake_crtcs s) \<and>
            sr_crtcs reply = take (unat (sr_num_crtcs origRes)) (sr_crtcs origRes) @
                             map fc_xid (fsr_fake_crtcs s)) \<and>
         (unat (sr_num_outputs origRes) + length (fsr_fake_outputs s) < 2 ^ 16 \<longrightarrow>
            unat (sr_num_outputs reply) =
              unat (sr_num_outputs origRes) + length (fsr_fake_outputs s) \<and>
            sr_outputs reply = take (unat (sr_num_outputs origRes)) (sr_outputs origRes) @
                               map fo_xid (fsr_fake_outputs s)) \<and>
         (unat (sr_num_modes origRes) + length (fsr_fake_modes s) < 2 ^ 16 \<longrightarrow>
            unat (sr_num_modes reply) = unat (sr_num_modes origRes) + length (fsr_fake_modes s) \<and>
            sr_modes reply = take (unat (sr_num_modes origRes)) (sr_modes origRes) @
                             map fm_info (fsr_fake_modes s)) \<and>
         (0 \<notin> set blob \<and> (\<forall>m \<in> set (fsr_fake_modes s). 0 \<notin> set (fm_name m)) \<and>
          length (blob @ concat (map fm_name (fsr_fake_modes s))) < 2 ^ 16 \<longrightarrow>
            sr_names reply = blob @ concat (map fm_name (fsr_fake_modes s)) \<and>
            unat (sr_names_len reply) = length (blob @ concat (map fm_name (fsr_fake_modes s))))"
proof -
  have fixed: "sr_sequence reply = sr_sequence origRes \<and> sr_length reply = sr_length origRes \<and>
         sr_timestamp reply = sr_timestamp origRes \<and>
         sr_config_timestamp reply = sr_config_timestamp origRes"
    by (simp add: reply_def origRes_def FakeScreenResources_makeReturnValue_def Let_def)
  have counts: "sr_num_crtcs reply = sr_num_crtcs origRes + word_of_nat (length (fsr_fake_crtcs s)) \<and>
         sr_num_outputs reply = sr_num_outputs origRes + word_of_nat (length (fsr_fake_outputs s)) \<and>
         sr_num_modes reply = sr_num_modes origRes + word_of_nat (length (fsr_fake_modes s))"
    by (simp add: reply_def origRes_def FakeScreenResources_makeReturnValue_def Let_def)
  have whole: "take (unat (c + word_of_nat (length fakes) :: u16)) (take (unat c) real @ fakes) =
      take (unat c) real @ fakes"
    if "unat c + length fakes < 2 ^ 16" for c :: u16 and real fakes :: "'a list"
  proof -
    have "length (take (unat c) real @ fakes) \<le> unat c + length fakes" by simp
    then show ?thesis by (simp only: unat_count_sum [OF that] take_all)
  qed
  have crtcs: "unat (sr_num_crtcs reply) = unat (sr_num_crtcs origRes) + length (fsr_fake_crtcs s) \<and>
            sr_crtcs reply = take (unat (sr_num_crtcs origRes)) (sr_crtcs origRes) @
                             map fc_xid (fsr_fake_crtcs s)"
    if fit: "unat (sr_num_crtcs origRes) + length (fsr_fake_crtcs s) < 2 ^ 16"
  proof -
    have "sr_crtcs reply =
        take (unat (sr_num_crtcs origRes + word_of_nat (length (map fc_xid (fsr_fake_crtcs s)))))
          (take (unat (sr_num_crtcs origRes)) (sr_crtcs origRes) @ map fc_xid (fsr_fake_crtcs s))"
      by (simp add: reply_def origRes_def FakeScreenResources_makeReturnValue_def Let_def)
    also have "\<dots> = take (unat (sr_num_crtcs origRes)) (sr_crtcs origRes) @
        map fc_xid (fsr_fake_crtcs s)"
      using fit by (intro whole) simp
    finally show ?thesis
      using counts unat_count_sum [OF fit] by simp
  qed
  have outputs: "unat (sr_num_outputs reply) =
              unat (sr_num_outputs origRes) + length (fsr_fake_outputs s) \<and>
            sr_outputs reply = take (unat (sr_num_outputs origRes)) (sr_outputs origRes) @
                               map fo_xid (fsr_fake_outputs s)"
    if fit: "unat (sr_num_outputs origRes) + length (fsr_fake_outputs s) < 2 ^ 16"
  proof -
    have "sr_outputs reply =
        take (unat (sr_num_outputs origRes + word_of_nat (length (map fo_xid (fsr_fake_outputs s)))))
          (take (unat (sr_num_outputs origRes)) (sr_outputs origRes) @
           map fo_xid (fsr_fake_outputs s))"
      by (simp add: reply_def origRes_def FakeScreenResources_makeReturnValue_def Let_def)
    also have "\<dots> = take (unat (sr_num_outputs origRes)) (sr_outputs origRes) @
        map fo_xid (fsr_fake_outputs s)"
      using fit by (intro whole) simp
    finally show ?thesis
      using counts unat_count_sum [OF fit] by simp
  qed
  have modes: "unat (sr_num_modes reply) = unat (sr_num_modes origRes) + length (fsr_fake_modes s) \<and>
            sr_modes reply = take (unat (sr_num_modes origRes)) (sr_modes origRes) @
                             map fm_info (fsr_fake_modes s)"
    if fit: "unat (sr_num_modes origRes) + length (fsr_fake_modes s) < 2 ^ 16"
  proof -
    have "sr_modes reply =
        take (unat (sr_num_modes origRes + word_of_nat (length (map fm_info (fsr_fake_modes s)))))
          (take (unat (sr_num_modes origRes)) (sr_modes origRes) @ map fm_info (fsr_fake_modes s))"
      by (simp add: reply_def origRes_def FakeScreenResources_makeReturnValue_def Let_def)
    also have "\<dots> = take (unat (sr_num_modes origRes)) (sr_modes origRes) @
        map fm_info (fsr_fake_modes s)"
      using fit by (intro whole) simp
    finally show ?thesis
      using counts unat_count_sum [OF fit] by simp
  qed
  have names: "sr_names reply = blob @ concat (map fm_name (fsr_fake_modes s)) \<and>
            unat (sr_names_len reply) = length (blob @ concat (map fm_name (fsr_fake_modes s)))"
    if clean: "0 \<notin> set blob" "\<forall>m \<in> set (fsr_fake_modes s). 0 \<notin> set (fm_name m)"
      and short: "length (blob @ concat (map fm_name (fsr_fake_modes s))) < 2 ^ 16"
  proof -
    let ?all = "blob @ concat (map fm_name (fsr_fake_modes s))"
    from clean(2) have "\<forall>name \<in> set (map fm_name (fsr_fake_modes s)). 0 \<notin> set name" by simp
    from names_buffer_clean [OF clean(1) this]
    have buf: "foldl strcat blob (map fm_name (fsr_fake_modes s)) = ?all" .
    from clean have "0 \<notin> set ?all" by auto
    then have len: "strlen ?all = length ?all" by (rule strlen_clean)
    from short have "length ?all < 2 ^ LENGTH(16)" by simp
    then have un: "unat (word_of_nat (length ?all) :: u16) = length ?all"
      by (rule of_nat_inverse [OF refl])
    have "sr_names_len reply = word_of_nat (length ?all)"
      using buf len
      by (simp add: reply_def origRes_def blob_def FakeScreenResources_makeReturnValue_def Let_def)
    moreover have "sr_names reply = take (unat (word_of_nat (length ?all) :: u16)) ?all"
      using buf len
      by (simp add: reply_def origRes_def blob_def FakeScreenResources_makeReturnValue_def Let_def)
    ultimately show ?thesis by (simp only: un take_all [OF order_refl] simp_thms)
  qed
  from fixed counts crtcs outputs modes names
  show ?thesis by (simp only: simp_thms) blast
qed

theorem reply_composition_witness:
  "(let reply = FakeScreenResources_makeReturnValue example_snapshot
    in sr_sequence reply = 7 \<and> sr_length reply = 19 \<and> sr_timestamp reply = 1000 \<and>
       sr_config_timestamp reply = 900 \<and>
       sr_crtcs reply = [0x3F, 0x20003F, 0x40003F] \<and>
       sr_outputs reply = [0x42, 0x200042, 0x400042] \<and>
       sr_modes reply = example_mode # map fm_info (fsr_fake_modes example_snapshot) \<and>
       sr_num_crtcs reply = 3 \<and> sr_num_outputs reply = 3 \<and> sr_num_modes reply = 3 \<and>
       unat (sr_num_crtcs reply) = 3 \<and> unat (sr_num_outputs reply) = 3 \<and>
       unat (sr_num_modes reply) = 3 \<and>
       sr_names reply =
         example_names @
         [0x31, 0x39, 0x32, 0x30, 0x78, 0x31, 0x30, 0x38, 0x30,
          0x31, 0x39, 0x32, 0x30, 0x78, 0x31, 0x30, 0x38, 0x30] \<and>
       unat (sr_names_len reply) = 27)"
proof -
  have orig: "fsr_origRes example_snapshot = example_resources"
    by (simp add: example_snapshot_def FakeScreenResources_new_def)
  have res: "sr_sequence example_resources = 7" "sr_length example_resources = 19"
    "sr_timestamp example_resources = 1000" "sr_config_timestamp example_resources = 900"
    "sr_num_crtcs example_resources = 1" "sr_num_outputs example_resources = 1"
    "sr_num_modes example_resources = 1" "sr_names_len example_resources = 9"
    "sr_crtcs example_resources = [0x3F]" "sr_outputs example_resources = [0x42]"
    "sr_modes example_resources = [example_mode]" "sr_names example_resources = example_names"
    by (simp_all add: example_resources_def)
  have blob: "take (unat (sr_names_len example_resources)) (sr_names example_resources) =
      example_names"
    by (simp add: res example_names_def)
  have names: "concat (map fm_name (fsr_fake_modes example_snapshot)) =
      [0x31, 0x39, 0x32, 0x30, 0x78, 0x31, 0x30, 0x38, 0x30,
       0x31, 0x39, 0x32, 0x30, 0x78, 0x31, 0x30, 0x38, 0x30]"
    by (simp add: example_mode_names)
  have clean: "0 \<notin> set example_names"
    "\<forall>m \<in> set (fsr_fake_modes example_snapshot). 0 \<notin> set (fm_name m)"
    using arg_cong [OF example_mode_names, of "\<lambda>xs. \<forall>name \<in> set xs. 0 \<notin> set name"]
    by (simp_all add: example_names_def)
  have short: "length (example_names @ concat (map fm_name (fsr_fake_modes example_snapshot))) < 2 ^ 16"
    by (simp add: names example_names_def)
  have len: "length (example_names @ concat (map fm_name (fsr_fake_modes example_snapshot))) = 27"
    by (simp add: names example_names_def)
  have ln: "length example_names = 9"
    by (simp add: example_names_def)
  from reply_composition [of example_snapshot] clean short
  show ?thesis
    unfolding Let_def orig blob
    by (simp add: res example_snapshot_lengths example_snapshot_xids names len ln)
qed

subsection \<open>Claim C8: the output-info reply for a real identifier\<close>

lemma comb_known: "known_tags (comb k)"
  by (induction k) auto

lemma comb_leaves: "leaf_count (comb k) = Suc k"
  by (induction k) auto

lemma no_reserved_bits_kept:
  assumes "xid AND XID_SPLIT_MASK = 0"
  shows "xid AND NOT XID_SPLIT_MASK = xid"
proof (rule bit_word_eqI)
  fix n assume "n < LENGTH(32)"
  then have n32: "n < 32" by simp
  have "bit XID_SPLIT_MASK n \<Longrightarrow> \<not> bit xid n"
    using reserved_clear_bits [OF assms, of n] by (simp add: bit_XID_SPLIT_MASK)
  then show "bit (xid AND NOT XID_SPLIT_MASK) n = bit xid n"
    using n32 by (auto simp add: bit_simps)
qed

lemma augmentXID_1024_looks_real: "augmentXID xid 1024 AND XID_SPLIT_MASK = 0"
proof -
  have "push_bit XID_SPLIT_SHIFT (1024 :: u32) AND XID_SPLIT_MASK = 0"
    by (simp add: XID_SPLIT_SHIFT_def XID_SPLIT_MASK_def)
  then show ?thesis
    by (simp add: augmentXID_def bit.conj_disj_distrib2 cleared_has_no_reserved_bits)
qed

lemma augmentXID_reserved_bits:
  assumes "n \<noteq> 0" and "n < 1024"
  shows "augmentXID xid n AND XID_SPLIT_MASK \<noteq> 0"
proof
  assume zero: "augmentXID xid n AND XID_SPLIT_MASK = 0"
  from assms(1) obtain k where k: "bit n k"
    by (auto simp add: bit_eq_iff)
  with assms(2) have "k < 10" by (rule index_bits)
  with k have "bit (augmentXID xid n AND XID_SPLIT_MASK) (21 + k)"
    by (simp add: augmentXID_def XID_SPLIT_SHIFT_def bit_simps bit_XID_SPLIT_MASK)
  with zero show False by simp
qed

lemma foldl_add_leaf_marked:
  assumes "\<forall>fo \<in> set (sp_outputs st). fo_xid fo AND XID_SPLIT_MASK \<noteq> 0"
    and "unat (sp_n st) + length rs < 1024"
  shows "\<forall>fo \<in> set (sp_outputs (foldl (add_leaf ctx) st rs)). fo_xid fo AND XID_SPLIT_MASK \<noteq> 0"
  using assms
proof (induction rs arbitrary: st)
  case Nil
  then show ?case by simp
next
  case (Cons r rs)
  from Cons.prems(2) have small: "unat (sp_n st) < 1023" by simp
  then have next_n: "unat (sp_n st + 1) = unat (sp_n st) + 1"
    by (simp add: unat_word_ariths)
  from small next_n have nz: "sp_n st + 1 \<noteq> 0"
    by (metis add_is_0 unat_0 zero_neq_one)
  from small next_n have lt: "sp_n st + 1 < 1024"
    by (simp add: word_less_nat_alt)
  have n: "sp_n (add_leaf ctx st r) = sp_n st + 1"
    by (simp add: add_leaf_def Let_def split: prod.splits)
  have outs: "sp_outputs (add_leaf ctx st r) =
      sp_outputs st @ [leaf_output ctx (sp_n st + 1) (fst (snd (snd r))) (snd (snd (snd r)))]"
    by (simp add: add_leaf_def Let_def split: prod.splits)
  have xid: "fo_xid (leaf_output ctx (sp_n st + 1) w h) = augmentXID (cx_output ctx) (sp_n st + 1)"
    for w h
    by (simp add: leaf_output_def FakeOutputInfo_new_def Let_def)
  have "\<forall>fo \<in> set (sp_outputs (add_leaf ctx st r)). fo_xid fo AND XID_SPLIT_MASK \<noteq> 0"
    using Cons.prems(1) augmentXID_reserved_bits [OF nz lt] by (simp add: outs xid)
  moreover from Cons.prems(2) next_n have "unat (sp_n (add_leaf ctx st r)) + length rs < 1024"
    by (simp add: n)
  ultimately show ?case
    using Cons.IH [of "add_leaf ctx st r"] by simp
qed

text \<open>
  Where the planner's counter stays below 1024, every virtual output carries a nonzero
  index in the reserved bits, and C8 holds as stated whenever the real library
  returns a reply: a real id (reserved bits zero) that is the parent of a virtual
  output of the live snapshot gets the real reply with the connection state
  DISCONNECTED, every other real id gets the real reply as it is.
\<close>

lemma output_info_reply_real_id:
  assumes "assoc_find cookie (eg_output_info_cookies eng) = Some (cookie, outputId)"
    and "eg_fakeScreenResources eng = Object s"
    and "outputId AND XID_SPLIT_MASK = 0"
    and "\<forall>fo \<in> set (fsr_fake_outputs s). fo_xid fo AND XID_SPLIT_MASK \<noteq> 0"
  shows "xcb_randr_get_output_info_reply eng cookie (Some outputInfo) =
           Inr (Some (if \<exists>fo \<in> set (fsr_fake_outputs s). fo_parent_xid fo = outputId
                      then outputInfo\<lparr>oi_connection := XCB_RANDR_CONNECTION_DISCONNECTED\<rparr>
                      else outputInfo),
                eng\<lparr>eg_output_info_cookies :=
                      assoc_erase_first cookie (eg_output_info_cookies eng)\<rparr>)"
proof -
  from assms(3,4) have "xid_in_list (fsr_fake_outputs s) outputId \<longleftrightarrow>
      (\<exists>fo \<in> set (fsr_fake_outputs s). fo_parent_xid fo = outputId)"
    unfolding xid_in_list_iff by auto
  with assms(1-3) show ?thesis
    by (simp add: xcb_randr_get_output_info_reply_def Let_def)
qed

lemma output_info_reply_example:
  "xcb_randr_get_output_info_reply
     (initial_engine\<lparr>eg_fakeScreenResources := Object example_snapshot,
                     eg_output_info_cookies := [(5, 0x42)]\<rparr>)
     5 (Some example_output_info) =
   Inr (Some (example_output_info\<lparr>oi_connection := XCB_RANDR_CONNECTION_DISCONNECTED\<rparr>),
        initial_engine\<lparr>eg_fakeScreenResources := Object example_snapshot,
                       eg_output_info_cookies := []\<rparr>) \<and>
   xcb_randr_get_output_info_reply
     (initial_engine\<lparr>eg_fakeScreenResources := Object example_snapshot,
                     eg_output_info_cookies := [(6, 0x43)]\<rparr>)
     6 (Some example_output_info) =
   Inr (Some example_output_info,
        initial_engine\<lparr>eg_fakeScreenResources := Object example_snapshot,
                       eg_output_info_cookies := []\<rparr>)"
proof -
  have outs: "map (\<lambda>fo. (fo_xid fo, fo_parent_xid fo)) (fsr_fake_outputs example_snapshot) =
      [(0x200042, 0x42), (0x400042, 0x42)]"
    by (simp add: example_snapshot_def FakeScreenResources_new_def example_fakes_def
        add_leaf_def leaf_output_def FakeOutputInfo_new_def Let_def no_fakes_def example_ctx_def
        augmentXID_def XID_SPLIT_MASK_def XID_SPLIT_SHIFT_def)
  have ex: "(\<exists>fo \<in> set (fsr_fake_outputs example_snapshot). fo_parent_xid fo = x) \<longleftrightarrow>
      (\<exists>p \<in> set (map (\<lambda>fo. (fo_xid fo, fo_parent_xid fo)) (fsr_fake_outputs example_snapshot)).
         snd p = x)" for x
    by auto
  have al: "(\<forall>fo \<in> set (fsr_fake_outputs example_snapshot). fo_xid fo AND XID_SPLIT_MASK \<noteq> 0) \<longleftrightarrow>
      (\<forall>p \<in> set (map (\<lambda>fo. (fo_xid fo, fo_parent_xid fo)) (fsr_fake_outputs example_snapshot)).
         fst p AND XID_SPLIT_MASK \<noteq> 0)"
    by auto
  have parent: "\<exists>fo \<in> set (fsr_fake_outputs example_snapshot). fo_parent_xid fo = 0x42"
    unfolding ex outs by simp
  have other: "\<not> (\<exists>fo \<in> set (fsr_fake_outputs example_snapshot). fo_parent_xid fo = 0x43)"
    unfolding ex outs by simp
  have marked: "\<forall>fo \<in> set (fsr_fake_outputs example_snapshot). fo_xid fo AND XID_SPLIT_MASK \<noteq> 0"
    unfolding al outs by (simp add: XID_SPLIT_MASK_def)
  have m42: "(0x42 :: u32) AND XID_SPLIT_MASK = 0" and m43: "(0x43 :: u32) AND XID_SPLIT_MASK = 0"
    by (simp_all add: XID_SPLIT_MASK_def)
  have f5: "assoc_find 5 (eg_output_info_cookies
      (initial_engine\<lparr>eg_fakeScreenResources := Object example_snapshot,
                      eg_output_info_cookies := [(5, 0x42)]\<rparr>)) = Some (5, 0x42)"
    and f6: "assoc_find 6 (eg_output_info_cookies
      (initial_engine\<lparr>eg_fakeScreenResources := Object example_snapshot,
                      eg_output_info_cookies := [(6, 0x43)]\<rparr>)) = Some (6, 0x43)"
    by (simp_all add: assoc_find_def)
  have live: "eg_fakeScreenResources
      (initial_engine\<lparr>eg_fakeScreenResources := Object example_snapshot,
                      eg_output_info_cookies := cs\<rparr>) = Object example_snapshot" for cs
    by simp
  from output_info_reply_real_id [OF f5 live m42 marked, of example_output_info]
    output_info_reply_real_id [OF f6 live m43 marked, of example_output_info]
    parent other
  show ?thesis by simp
qed

text \<open>
  The write of the connection state is not guarded: for a real id that is the parent
  of a virtual output, a \<^verbatim>\<open>NULL\<close> reply of the real library (an error reply, a broken
  connection) is written through as well.
\<close>

lemma output_info_reply_parent_null_write:
  assumes "assoc_find cookie (eg_output_info_cookies eng) = Some (cookie, outputId)"
    and "eg_fakeScreenResources eng = Object s"
    and "outputId AND XID_SPLIT_MASK = 0"
    and "\<exists>fo \<in> set (fsr_fake_outputs s). fo_parent_xid fo = outputId"
  shows "xcb_randr_get_output_info_reply eng cookie None = Inl NullDereference"
proof -
  from assms(4) have "xid_in_list (fsr_fake_outputs s) outputId"
    unfolding xid_in_list_iff by auto
  with assms(1-3) show ?thesis
    by (simp add: xcb_randr_get_output_info_reply_def Let_def)
qed

text \<open>
  C8 fails on the code at the 1024th leaf of a plan. The planner gives the leaves of a
  matched output the identifiers \<^verbatim>\<open>augmentXID(output, n)\<close> for \<open>n = 1, 2, \<dots>\<close> with no
  bound on \<open>n\<close>; the index 1024 shifted by 21 bits is bit 31, above the mask
  \<open>0x7FE00000\<close>, so the 1024th virtual output has an identifier whose reserved bits are
  zero. For every plan of 1024 leaves (known tags, a controller of nonzero size, the
  counter started at 0 as \<^verbatim>\<open>config_handle_output\<close> does) and the snapshot made of the
  planner's lists: the identifier of the last virtual output is \<open>augmentXID output 1024\<close>,
  its reserved bits are zero, \<^verbatim>\<open>xcb_randr_get_output_info\<close> forwards it to the real
  library as it is, and when the real library has no reply for it (\<^verbatim>\<open>NULL\<close>),
  \<^verbatim>\<open>xcb_randr_get_output_info_reply\<close> takes the branch of the real identifiers, finds the
  identifier in the list of virtual outputs and writes the connection state through the
  \<^verbatim>\<open>NULL\<close> reply, where C8 has the real reply returned as it is.
\<close>

theorem output_info_reply_null_write:
  assumes "known_tags p" and "leaf_count p = 1024"
    and "ci_width (cx_crtc_info ctx) \<noteq> 0" and "ci_height (cx_crtc_info ctx) \<noteq> 0"
    and "sp_n st = 0"
    and "config_foreach_split ctx (serialise p @ rest) st x y width height = Inr (rest', st')"
    and "eg_fakeScreenResources eng =
           Object (FakeScreenResources_new resources (sp_crtcs st') (sp_outputs st') (sp_modes st'))"
    and "xcb_randr_get_output_info eng c (augmentXID (cx_output ctx) 1024) ts = (cookie, c', eng')"
  shows "fo_xid (last (sp_outputs st')) = augmentXID (cx_output ctx) 1024 \<and>
         augmentXID (cx_output ctx) 1024 AND XID_SPLIT_MASK = 0 \<and>
         rc_sent c' = rc_sent c @ [GetOutputInfo (augmentXID (cx_output ctx) 1024) ts] \<and>
         xcb_randr_get_output_info_reply eng' cookie None = Inl NullDereference"
proof -
  let ?id = "augmentXID (cx_output ctx) 1024"
  define rs where "rs = leaf_rects p (x, y, width, height)"
  have "config_foreach_split ctx (serialise p @ rest) st x y width height =
      Inr (rest, foldl (add_leaf ctx) st rs)"
    unfolding rs_def by (rule config_foreach_split_serialise [OF assms(3,4,1)])
  with assms(6) have st': "st' = foldl (add_leaf ctx) st rs" by simp
  have len: "length rs = 1024"
    by (simp add: rs_def length_leaf_rects [OF assms(1)] assms(2))
  then have ne: "rs \<noteq> []" by auto
  have "length (sp_outputs st') = length (sp_outputs st) + 1024"
    by (simp add: st' foldl_add_leaf_outputs len)
  then have ne_outs: "sp_outputs st' \<noteq> []" by auto
  have last_xid: "fo_xid (last (sp_outputs st')) = ?id"
    using foldl_add_leaf_last_xid [OF ne, of ctx st] by (simp add: st' len assms(5))
  have clear: "?id AND XID_SPLIT_MASK = 0"
    by (rule augmentXID_1024_looks_real)
  have listed: "xid_in_list (sp_outputs st') ?id"
    unfolding xid_in_list_iff using last_in_set [OF ne_outs] last_xid by blast
  from assms(8) have cookie: "cookie = rc_sequence c + 1"
    and sent: "rc_sent c' = rc_sent c @ [GetOutputInfo ?id ts]"
    and eng': "eng' = eng\<lparr>eg_output_info_cookies :=
        assoc_insert cookie ?id (eg_output_info_cookies eng)\<rparr>"
    by (auto simp add: xcb_randr_get_output_info_def real_send_def
        no_reserved_bits_kept [OF clear])
  have "xcb_randr_get_output_info_reply eng' cookie None = Inl NullDereference"
    using listed clear assms(7)
    by (simp add: xcb_randr_get_output_info_reply_def eng' assoc_find_def assoc_insert_def
        FakeScreenResources_new_def)
  with last_xid clear sent show ?thesis by simp
qed

text \<open>
  The output \<open>0x42\<close> with a plan of 1023 vertical splits: the last of the 1024 virtual
  outputs is \<open>0x80000042\<close>, all of them have the parent \<open>0x42\<close>, the real library has no
  output \<open>0x80000042\<close>, and the query for it ends in the write through \<^verbatim>\<open>NULL\<close>.
\<close>

theorem output_info_reply_null_write_witness:
  "(case config_foreach_split example_ctx (serialise (comb 1023)) no_fakes 0 0 3840 1080 of
      Inl e \<Rightarrow> False
    | Inr (config', st') \<Rightarrow>
        length (sp_outputs st') = 1024 \<and>
        fo_xid (last (sp_outputs st')) = 0x80000042 \<and>
        set (map fo_parent_xid (sp_outputs st')) = {0x42} \<and>
        (0x80000042 :: u32) AND XID_SPLIT_MASK = 0 \<and>
        be_output_info example_backend 0x80000042 = None \<and>
        (case xcb_randr_get_output_info
                (initial_engine
                   \<lparr>eg_fakeScreenResources :=
                      Object (FakeScreenResources_new example_resources (sp_crtcs st')
                                (sp_outputs st') (sp_modes st'))\<rparr>)
                \<lparr>rc_sent = [], rc_sequence = 0\<rparr> 0x80000042 900 of
           (cookie, c', eng') \<Rightarrow>
             rc_sent c' = [GetOutputInfo 0x80000042 900] \<and>
             xcb_randr_get_output_info_reply eng' cookie
               (be_output_info example_backend 0x80000042) = Inl NullDereference))"
proof -
  define rs where "rs = leaf_rects (comb 1023) (0, 0, 3840, 1080)"
  define st' where "st' = foldl (add_leaf example_ctx) no_fakes rs"
  define eng where "eng = initial_engine
      \<lparr>eg_fakeScreenResources :=
         Object (FakeScreenResources_new example_resources (sp_crtcs st') (sp_outputs st')
                   (sp_modes st'))\<rparr>"
  define c where "c = \<lparr>rc_sent = [] :: request list, rc_sequence = 0\<rparr>"
  obtain cookie c' eng' where
    issue: "xcb_randr_get_output_info eng c (augmentXID (cx_output example_ctx) 1024) 900 =
      (cookie, c', eng')"
    by (cases "xcb_randr_get_output_info eng c (augmentXID (cx_output example_ctx) 1024) 900")
  have nz: "ci_width (cx_crtc_info example_ctx) \<noteq> 0" "ci_height (cx_crtc_info example_ctx) \<noteq> 0"
    by (simp_all add: example_ctx_def example_crtc_info_def)
  have leaves: "leaf_count (comb 1023) = 1024"
    by (simp add: comb_leaves)
  have start: "sp_n no_fakes = 0"
    by (simp add: no_fakes_def)
  have run: "config_foreach_split example_ctx (serialise (comb 1023) @ []) no_fakes 0 0 3840 1080 =
      Inr ([], st')"
    using config_foreach_split_serialise [OF nz comb_known, of 1023 "[]" no_fakes 0 0 3840 1080]
    by (simp add: st'_def rs_def)
  have live: "eg_fakeScreenResources eng =
      Object (FakeScreenResources_new example_resources (sp_crtcs st') (sp_outputs st')
                (sp_modes st'))"
    by (simp add: eng_def)
  have id: "augmentXID (cx_output example_ctx) 1024 = 0x80000042"
    by (simp add: example_ctx_def augmentXID_def XID_SPLIT_MASK_def XID_SPLIT_SHIFT_def)
  have len: "length rs = 1024"
    by (simp add: rs_def length_leaf_rects [OF comb_known] comb_leaves)
  have outs: "length (sp_outputs st') = 1024"
    by (simp add: st'_def foldl_add_leaf_outputs len no_fakes_def)
  then have ne_outs: "sp_outputs st' \<noteq> []" by auto
  have "\<forall>fo \<in> set (sp_outputs st'). fo_parent_xid fo = 0x42"
    using foldl_add_leaf_parents [of no_fakes example_ctx rs]
    by (simp add: st'_def no_fakes_def example_ctx_def)
  with ne_outs have parents: "set (map fo_parent_xid (sp_outputs st')) = {0x42}"
    by (cases "sp_outputs st'") auto
  have absent: "be_output_info example_backend 0x80000042 = None"
    by (simp add: example_backend_def)
  from output_info_reply_null_write [OF comb_known leaves nz start run live issue]
  have "fo_xid (last (sp_outputs st')) = 0x80000042 \<and>
      (0x80000042 :: u32) AND XID_SPLIT_MASK = 0 \<and>
      rc_sent c' = [GetOutputInfo 0x80000042 900] \<and>
      xcb_randr_get_output_info_reply eng' cookie None = Inl NullDereference"
    by (simp add: id c_def)
  with outs parents issue [unfolded id] have
    "length (sp_outputs st') = 1024 \<and>
     fo_xid (last (sp_outputs st')) = 0x80000042 \<and>
     set (map fo_parent_xid (sp_outputs st')) = {0x42} \<and>
     (0x80000042 :: u32) AND XID_SPLIT_MASK = 0 \<and>
     (case xcb_randr_get_output_info eng c 0x80000042 900 of
        (cookie, c', eng') \<Rightarrow>
          rc_sent c' = [GetOutputInfo 0x80000042 900] \<and>
          xcb_randr_get_output_info_reply eng' cookie None = Inl NullDereference)"
    by simp
  then show ?thesis
    unfolding eng_def c_def absent using run by simp
qed

subsection \<open>Claim C9: the physical size of a virtual output\<close>

text \<open>The claim's words: a length apportioned by the area ratio \<open>w\<cdot>h / (W\<cdot>H)\<close>.\<close>

definition area_apportioned :: "nat \<Rightarrow> nat \<Rightarrow> nat \<Rightarrow> nat \<Rightarrow> nat \<Rightarrow> nat" where
  "area_apportioned mm w h parentW parentH = mm * (w * h) div (parentW * parentH)"

text \<open>
  C9, as stated, at a 1x1 leaf of a 2x2 controller whose output measures 3 mm by 3 mm:
  the virtual output measures 1 mm by 1 mm (\<open>3 \<cdot> 1 / 2\<close> on each axis). Neither side is
  the parent's side apportioned by the area ratio (\<open>3 \<cdot> 1 / 4 = 0\<close>), and its area of
  1 is not the parent's area apportioned by that ratio either (\<open>9 \<cdot> 1 / 4 = 2\<close>).
\<close>

theorem leaf_physical_size_counterexample:
  "(case config_foreach_split
           (example_ctx\<lparr>cx_output_info := example_output_info\<lparr>oi_mm_width := 3, oi_mm_height := 3\<rparr>,
                         cx_crtc_info := example_crtc_info\<lparr>ci_width := 2, ci_height := 2\<rparr>\<rparr>)
           (serialise Leaf) no_fakes 0 0 1 1 of
      Inl e \<Rightarrow> False
    | Inr (config', st') \<Rightarrow>
        map (\<lambda>fo. (oi_mm_width (fo_orig_output_info fo), oi_mm_height (fo_orig_output_info fo)))
          (sp_outputs st') = [(1, 1)]) \<and>
   area_apportioned 3 1 1 2 2 = 0 \<and> area_apportioned (3 * 3) 1 1 2 2 = 2 \<and>
   (1, 1) \<noteq> (area_apportioned 3 1 1 2 2, area_apportioned 3 1 1 2 2) \<and>
   1 * 1 \<noteq> area_apportioned (3 * 3) 1 1 2 2"
  by (simp add: split_N new_leaf_def add_leaf_def leaf_output_def FakeOutputInfo_new_def
      example_ctx_def example_crtc_info_def example_output_info_def no_fakes_def
      area_apportioned_def)

text \<open>
  C9, amended: for every leaf of rectangle \<open>w\<times>h\<close> split from a parent controller of
  nonzero size \<open>parentW\<times>parentH\<close>, the virtual output's physical width is the parent
  output's \<open>mm_width \<cdot> w / parentW\<close> and its physical height is \<open>mm_height \<cdot> h / parentH\<close>
  (each axis scaled by its own ratio), computed in 32-bit unsigned arithmetic with a
  truncating division; where the product does not exceed 32 bits this is the exact
  integer quotient.
\<close>

theorem leaf_physical_size:
  assumes "ci_width (cx_crtc_info ctx) \<noteq> 0" and "ci_height (cx_crtc_info ctx) \<noteq> 0"
  shows "(case config_foreach_split ctx (serialise Leaf @ rest) st x y w h of
           Inl e \<Rightarrow> False
         | Inr (config', st') \<Rightarrow>
             map (\<lambda>fo. (oi_mm_width (fo_orig_output_info fo), oi_mm_height (fo_orig_output_info fo)))
               (sp_outputs st') =
             map (\<lambda>fo. (oi_mm_width (fo_orig_output_info fo), oi_mm_height (fo_orig_output_info fo)))
               (sp_outputs st) @
             [(oi_mm_width (cx_output_info ctx) * w div ucast (ci_width (cx_crtc_info ctx)),
               oi_mm_height (cx_output_info ctx) * h div ucast (ci_height (cx_crtc_info ctx)))]) \<and>
         (unat (oi_mm_width (cx_output_info ctx)) * unat w < 2 ^ 32 \<longrightarrow>
          unat (oi_mm_width (cx_output_info ctx) * w div ucast (ci_width (cx_crtc_info ctx))) =
            unat (oi_mm_width (cx_output_info ctx)) * unat w div unat (ci_width (cx_crtc_info ctx))) \<and>
         (unat (oi_mm_height (cx_output_info ctx)) * unat h < 2 ^ 32 \<longrightarrow>
          unat (oi_mm_height (cx_output_info ctx) * h div ucast (ci_height (cx_crtc_info ctx))) =
            unat (oi_mm_height (cx_output_info ctx)) * unat h div unat (ci_height (cx_crtc_info ctx)))"
proof -
  have emitted: "case config_foreach_split ctx (serialise Leaf @ rest) st x y w h of
           Inl e \<Rightarrow> False
         | Inr (config', st') \<Rightarrow>
             map (\<lambda>fo. (oi_mm_width (fo_orig_output_info fo), oi_mm_height (fo_orig_output_info fo)))
               (sp_outputs st') =
             map (\<lambda>fo. (oi_mm_width (fo_orig_output_info fo), oi_mm_height (fo_orig_output_info fo)))
               (sp_outputs st) @
             [(oi_mm_width (cx_output_info ctx) * w div ucast (ci_width (cx_crtc_info ctx)),
               oi_mm_height (cx_output_info ctx) * h div ucast (ci_height (cx_crtc_info ctx)))]"
    using assms
    by (simp add: split_N new_leaf_def add_leaf_def leaf_output_def FakeOutputInfo_new_def Let_def)
  have exact: "unat (a * b div ucast c) = unat a * unat b div unat c"
    if "unat a * unat b < 2 ^ 32" for a b :: u32 and c :: u16
  proof -
    from that have "unat (a * b) = unat a * unat b"
      by (simp add: unat_mult_lem [THEN iffD1])
    moreover have "unat (ucast c :: u32) = unat c"
      by (simp add: unsigned_ucast_eq take_bit_nat_eq_self unsigned_less [THEN less_trans])
    ultimately show ?thesis by (simp add: unat_div)
  qed
  from emitted exact [of "oi_mm_width (cx_output_info ctx)" w "ci_width (cx_crtc_info ctx)"]
    exact [of "oi_mm_height (cx_output_info ctx)" h "ci_height (cx_crtc_info ctx)"]
  show ?thesis by blast
qed

theorem leaf_physical_size_witness:
  "(case config_foreach_split example_ctx (serialise Leaf) no_fakes 0 0 1920 1080 of
      Inl e \<Rightarrow> False
    | Inr (config', st') \<Rightarrow>
        map (\<lambda>fo. (oi_mm_width (fo_orig_output_info fo), oi_mm_height (fo_orig_output_info fo)))
          (sp_outputs st') = [(400, 340)]) \<and>
   unat (800 * 1920 div ucast (3840 :: u16) :: u32) = 800 * 1920 div 3840 \<and>
   unat (340 * 1080 div ucast (1080 :: u16) :: u32) = 340 * 1080 div 1080"
proof -
  have nz: "ci_width (cx_crtc_info example_ctx) \<noteq> 0" "ci_height (cx_crtc_info example_ctx) \<noteq> 0"
    by (simp_all add: example_ctx_def example_crtc_info_def)
  have vals: "oi_mm_width (cx_output_info example_ctx) = 800"
    "oi_mm_height (cx_output_info example_ctx) = 340"
    "ci_width (cx_crtc_info example_ctx) = 3840" "ci_height (cx_crtc_info example_ctx) = 1080"
    "sp_outputs no_fakes = []"
    by (simp_all add: example_ctx_def example_crtc_info_def example_output_info_def no_fakes_def)
  from leaf_physical_size [OF nz, where rest = "[]" and st = no_fakes and x = 0 and y = 0
      and w = 1920 and h = 1080] show ?thesis
    by (simp add: vals split: sum.splits prod.splits)
qed

subsection \<open>Claim C10: what the real library receives from the issue functions\<close>

text \<open>
  C10: each of the four issue functions (\<^verbatim>\<open>xcb_randr_get_crtc_info\<close>,
  \<^verbatim>\<open>xcb_randr_get_output_info\<close> and their unchecked variants), called with any
  identifier \<open>xid\<close>, sends the real library exactly one request: the request of its own
  kind, with the caller's timestamp and with the identifier \<open>xid\<close> whose bits of the
  mask \<open>0x7FE00000\<close> are cleared. That identifier has no bit of the mask set, so the
  real library receives no identifier with a nonzero reserved bit from them.
\<close>

theorem issue_clears_reserved_bits:
  "(case xcb_randr_get_crtc_info eng c xid ts of (cookie, c', eng') \<Rightarrow>
      rc_sent c' = rc_sent c @ [GetCrtcInfo (xid AND NOT XID_SPLIT_MASK) ts]) \<and>
   (case xcb_randr_get_crtc_info_unchecked eng c xid ts of (cookie, c', eng') \<Rightarrow>
      rc_sent c' = rc_sent c @ [GetCrtcInfoUnchecked (xid AND NOT XID_SPLIT_MASK) ts]) \<and>
   (case xcb_randr_get_output_info eng c xid ts of (cookie, c', eng') \<Rightarrow>
      rc_sent c' = rc_sent c @ [GetOutputInfo (xid AND NOT XID_SPLIT_MASK) ts]) \<and>
   (case xcb_randr_get_output_info_unchecked eng c xid ts of (cookie, c', eng') \<Rightarrow>
      rc_sent c' = rc_sent c @ [GetOutputInfoUnchecked (xid AND NOT XID_SPLIT_MASK) ts]) \<and>
   request_xid (GetCrtcInfo (xid AND NOT XID_SPLIT_MASK) ts) = xid AND NOT XID_SPLIT_MASK \<and>
   request_xid (GetCrtcInfoUnchecked (xid AND NOT XID_SPLIT_MASK) ts) = xid AND NOT XID_SPLIT_MASK \<and>
   request_xid (GetOutputInfo (xid AND NOT XID_SPLIT_MASK) ts) = xid AND NOT XID_SPLIT_MASK \<and>
   request_xid (GetOutputInfoUnchecked (xid AND NOT XID_SPLIT_MASK) ts) =
     xid AND NOT XID_SPLIT_MASK \<and>
   (xid AND NOT XID_SPLIT_MASK) AND XID_SPLIT_MASK = 0"
  by (simp add: xcb_randr_get_crtc_info_def xcb_randr_get_crtc_info_unchecked_def
      xcb_randr_get_output_info_def xcb_randr_get_output_info_unchecked_def real_send_def
      cleared_has_no_reserved_bits)

subsection \<open>Scenario A, from the fetch of the reply\<close>

text \<open>
  With the configuration file in place, the first fetch of a screen-resources reply
  builds the snapshot of the two halves and returns the composed reply; the engine
  holds the mapped file and the live snapshot.
\<close>

lemma scenario_A_reply:
  "xcb_randr_get_screen_resources_reply home_env example_backend initial_engine
     (Some example_resources) =
   Some (Inr (FakeScreenResources_makeReturnValue example_snapshot,
              initial_engine
                \<lparr>eg_config_file := Some (entry_bytes other_entry @ entry_bytes this_entry),
                 eg_fakeScreenResources := Object example_snapshot\<rparr>))"
proof -
  have opened: "open_configuration home_env =
      Some (entry_bytes other_entry @ entry_bytes this_entry)"
    by (simp add: open_configuration_def home_env_def)
  have edid: "get_output_edid example_backend 0x42 =
      Inr (6, [0x30, 0x30, 0x66, 0x66, 0x66, 0x66, 0])"
    by (simp add: get_output_edid_def example_backend_def hex_string_def hex_digit_def)
  have outputs: "take (unat (sr_num_outputs example_resources)) (sr_outputs example_resources) =
      [0x42]"
    by (simp add: example_resources_def)
  have start: "\<lparr>sp_n = 0, sp_crtcs = [], sp_outputs = [], sp_modes = []\<rparr> = no_fakes"
    by (simp add: no_fakes_def)
  have handled: "handle_outputs example_backend (entry_bytes other_entry @ entry_bytes this_entry)
      example_resources [0x42] no_fakes = Some (Inr example_fakes)"
    by (simp add: edid scenario_A)
  have snapshot: "FakeScreenResources_new example_resources (sp_crtcs example_fakes)
      (sp_outputs example_fakes) (sp_modes example_fakes) = example_snapshot"
    by (simp add: example_snapshot_def)
  have updated: "updateFakeResources home_env example_backend initial_engine
      (Some example_resources) False =
      Some (Inr (initial_engine
                   \<lparr>eg_config_file := Some (entry_bytes other_entry @ entry_bytes this_entry),
                    eg_fakeScreenResources := Object example_snapshot\<rparr>))"
    by (simp add: updateFakeResources_def opened outputs start handled snapshot
        del: handle_outputs.simps)
  have null: "eg_fakeScreenResources initial_engine = NullPtr"
    by (simp add: initial_engine_def)
  have same: "initial_engine\<lparr>eg_fakeScreenResources := NullPtr\<rparr> = initial_engine"
    by (simp add: initial_engine_def)
  show ?thesis
    by (simp add: xcb_randr_get_screen_resources_reply_def screen_resources_reply_def null same
        updated)
qed

end
